theory Spec2Isabelle
  imports Main
begin

section \<open>Values of a loaded configuration document\<close>

text \<open>
  \<^verbatim>\<open>mcJobSubmission.py\<close> works on the object that \<^verbatim>\<open>load_config\<close> returns: the
  Python rendering of a JSON or YAML document. A mapping is an association list in
  insertion order, which is the order in which Python iterates a \<^verbatim>\<open>dict\<close>. Keys are
  the hashable scalars. Floating point numbers are outside the model, and a character
  stands for a code point below 256.
\<close>

datatype pykey = KNone | KBool bool | KInt int | KStr string

datatype pyval =
    PNone
  | PBool bool
  | PInt int
  | PStr string
  | PList "pyval list"
  | PDict "(pykey \<times> pyval) list"

text \<open>
  Exceptions. \<open>ValueError msg\<close> is what \<^verbatim>\<open>require\<close> raises, with its message.
  \<open>DictSeqValueError\<close> is the \<^verbatim>\<open>ValueError\<close> of \<^verbatim>\<open>dict()\<close> and
  \<^verbatim>\<open>update()\<close> on an element that is not a pair; the messages of the exceptions
  that the interpreter raises are not modelled. \<open>RunError\<close> stands for any exception
  that \<^verbatim>\<open>subprocess.run\<close> raises, such as the \<^verbatim>\<open>FileNotFoundError\<close> for a program
  that is not installed.
\<close>

datatype pyexc =
    ValueError string
  | DictSeqValueError
  | TypeError
  | AttributeError
  | KeyError
  | RunError

definition bindE :: "'e + 'a \<Rightarrow> ('a \<Rightarrow> 'e + 'b) \<Rightarrow> 'e + 'b" where
  "bindE m f = (case m of Inl e \<Rightarrow> Inl e | Inr x \<Rightarrow> f x)"

fun mapE :: "('a \<Rightarrow> 'e + 'b) \<Rightarrow> 'a list \<Rightarrow> 'e + 'b list" where
  "mapE f [] = Inr []"
| "mapE f (x # xs) = bindE (f x) (\<lambda>y. bindE (mapE f xs) (\<lambda>ys. Inr (y # ys)))"

subsection \<open>Truth values, keys\<close>

fun py_truthy :: "pyval \<Rightarrow> bool" where
  "py_truthy PNone = False"
| "py_truthy (PBool b) = b"
| "py_truthy (PInt i) = (i \<noteq> 0)"
| "py_truthy (PStr s) = (s \<noteq> [])"
| "py_truthy (PList xs) = (xs \<noteq> [])"
| "py_truthy (PDict d) = (d \<noteq> [])"

text \<open>\<^verbatim>\<open>a or b\<close>\<close>

definition py_or :: "pyval \<Rightarrow> pyval \<Rightarrow> pyval" where
  "py_or a b = (if py_truthy a then a else b)"

text \<open>
  Python compares and hashes \<^verbatim>\<open>True\<close> as \<^verbatim>\<open>1\<close> and \<^verbatim>\<open>False\<close> as \<^verbatim>\<open>0\<close>,
  so as dictionary keys they are the same key.
\<close>

fun kcanon :: "pykey \<Rightarrow> pykey" where
  "kcanon (KBool b) = KInt (if b then 1 else 0)"
| "kcanon k = k"

definition keq :: "pykey \<Rightarrow> pykey \<Rightarrow> bool" where
  "keq a b = (kcanon a = kcanon b)"

fun of_key :: "pykey \<Rightarrow> pyval" where
  "of_key KNone = PNone"
| "of_key (KBool b) = PBool b"
| "of_key (KInt i) = PInt i"
| "of_key (KStr s) = PStr s"

text \<open>Lists and dicts are unhashable, so they are no keys.\<close>

fun to_key :: "pyval \<Rightarrow> pykey option" where
  "to_key PNone = Some KNone"
| "to_key (PBool b) = Some (KBool b)"
| "to_key (PInt i) = Some (KInt i)"
| "to_key (PStr s) = Some (KStr s)"
| "to_key (PList xs) = None"
| "to_key (PDict d) = None"

subsection \<open>Dictionaries\<close>

text \<open>\<^verbatim>\<open>d.get(k)\<close>, as an option.\<close>

fun dict_get :: "pykey \<Rightarrow> (pykey \<times> 'v) list \<Rightarrow> 'v option" where
  "dict_get k [] = None"
| "dict_get k ((k', v) # d) = (if keq k k' then Some v else dict_get k d)"

text \<open>
  \<^verbatim>\<open>d[k] = v\<close>: an existing key keeps its place (and its key object), a new key goes
  to the end.
\<close>

fun dict_set :: "pykey \<Rightarrow> 'v \<Rightarrow> (pykey \<times> 'v) list \<Rightarrow> (pykey \<times> 'v) list" where
  "dict_set k v [] = [(k, v)]"
| "dict_set k v ((k', v') # d) =
     (if keq k k' then (k', v) # d else (k', v') # dict_set k v d)"

text \<open>\<^verbatim>\<open>d.update(s)\<close> for the items \<open>s\<close> of a mapping: one store per item, in order.\<close>

definition dict_update :: "(pykey \<times> 'v) list \<Rightarrow> (pykey \<times> 'v) list \<Rightarrow> (pykey \<times> 'v) list" where
  "dict_update d s = foldl (\<lambda>acc kv. dict_set (fst kv) (snd kv) acc) d s"

text \<open>The keys of a dictionary are pairwise different.\<close>

fun dict_wf :: "(pykey \<times> 'v) list \<Rightarrow> bool" where
  "dict_wf [] = True"
| "dict_wf ((k, v) # d) = (dict_get k d = None \<and> dict_wf d)"

text \<open>
  An element of the iterable that \<^verbatim>\<open>dict()\<close> or \<^verbatim>\<open>update()\<close> receives is itself
  iterated and must give exactly two items, the first one hashable. Iterating a string
  gives its characters, iterating a dict gives its keys.
\<close>

fun seq_pair :: "pyval \<Rightarrow> pyexc + (pykey \<times> pyval)" where
  "seq_pair (PList [k, v]) =
     (case to_key k of None \<Rightarrow> Inl TypeError | Some k' \<Rightarrow> Inr (k', v))"
| "seq_pair (PList xs) = Inl DictSeqValueError"
| "seq_pair (PStr [a, b]) = Inr (KStr [a], PStr [b])"
| "seq_pair (PStr s) = Inl DictSeqValueError"
| "seq_pair (PDict [(k1, v1), (k2, v2)]) = Inr (k1, of_key k2)"
| "seq_pair (PDict d) = Inl DictSeqValueError"
| "seq_pair PNone = Inl TypeError"
| "seq_pair (PBool b) = Inl TypeError"
| "seq_pair (PInt i) = Inl TypeError"

text \<open>
  The items that \<^verbatim>\<open>dict(x)\<close> and \<^verbatim>\<open>d.update(x)\<close> read from \<open>x\<close>: those of a
  mapping, or the pairs of an iterable. A non-empty string fails at its first
  character, which has length 1.
\<close>

fun py_items :: "pyval \<Rightarrow> pyexc + (pykey \<times> pyval) list" where
  "py_items (PDict d) = Inr d"
| "py_items (PList xs) = mapE seq_pair xs"
| "py_items (PStr s) = (if s = [] then Inr [] else Inl DictSeqValueError)"
| "py_items PNone = Inl TypeError"
| "py_items (PBool b) = Inl TypeError"
| "py_items (PInt i) = Inl TypeError"

text \<open>\<^verbatim>\<open>d.update(x)\<close> and \<^verbatim>\<open>dict(x)\<close>\<close>

definition py_update :: "(pykey \<times> pyval) list \<Rightarrow> pyval \<Rightarrow> pyexc + (pykey \<times> pyval) list" where
  "py_update d x = bindE (py_items x) (\<lambda>s. Inr (dict_update d s))"

definition py_dict :: "pyval \<Rightarrow> pyexc + (pykey \<times> pyval) list" where
  "py_dict x = py_update [] x"

text \<open>\<^verbatim>\<open>x.get(k, dflt)\<close>: only a dict has the method.\<close>

fun py_get :: "pyval \<Rightarrow> string \<Rightarrow> pyval \<Rightarrow> pyexc + pyval" where
  "py_get (PDict d) k dflt =
     Inr (case dict_get (KStr k) d of None \<Rightarrow> dflt | Some v \<Rightarrow> v)"
| "py_get x k dflt = Inl AttributeError"

section \<open>DefaultsMerger\<close>

text \<open>
  \<^verbatim>\<open>
  def merge_defaults(stage: dict, defaults: dict) -> dict:
      merged = dict(defaults)
      merged.update(stage)  # stage overrides defaults
      env_d = dict(defaults.get("env", {}) or {})
      env_s = dict(stage.get("env", {}) or {})
      env_d.update(env_s)
      merged["env"] = env_d
      return merged
  \<close>
\<close>

definition merge_defaults :: "pyval \<Rightarrow> pyval \<Rightarrow> pyexc + (pykey \<times> pyval) list" where
  "merge_defaults stage defaults =
     bindE (py_dict defaults) (\<lambda>merged0.
     bindE (py_update merged0 stage) (\<lambda>merged.
     bindE (py_get defaults ''env'' (PDict [])) (\<lambda>dv.
     bindE (py_dict (py_or dv (PDict []))) (\<lambda>env_d.
     bindE (py_get stage ''env'' (PDict [])) (\<lambda>sv.
     bindE (py_dict (py_or sv (PDict []))) (\<lambda>env_s.
     Inr (dict_set (KStr ''env'') (PDict (dict_update env_d env_s)) merged)))))))"

section \<open>Strings\<close>

text \<open>\<^verbatim>\<open>sep.join(xs)\<close>\<close>

fun join :: "string \<Rightarrow> string list \<Rightarrow> string" where
  "join sep [] = []"
| "join sep [x] = x"
| "join sep (x # y # ys) = x @ sep @ join sep (y # ys)"

definition digit_char :: "nat \<Rightarrow> char" where
  "digit_char n = ''0123456789abcdef'' ! (n mod 16)"

function string_of_nat :: "nat \<Rightarrow> string" where
  "string_of_nat n =
     (if n < 10 then [digit_char n] else string_of_nat (n div 10) @ [digit_char (n mod 10)])"
  by pat_completeness auto
termination
  by (relation "measure id") auto

definition string_of_int :: "int \<Rightarrow> string" where
  "string_of_int i = (if i < 0 then ''-'' @ string_of_nat (nat (- i)) else string_of_nat (nat i))"

text \<open>
  \<^verbatim>\<open>repr\<close> of a string. The quote is the double quote when the string has a single
  quote and no double quote, and the single quote otherwise. The backslash and the
  quote are escaped, so are tab, newline and carriage return, and a character that
  is not printable is written \<^verbatim>\<open>\xhh\<close>.
\<close>

definition printable_char :: "char \<Rightarrow> bool" where
  "printable_char c =
     (let n = (of_char c :: nat)
      in (32 \<le> n \<and> n < 127) \<or> (161 \<le> n \<and> n \<noteq> 173))"

definition repr_char :: "char \<Rightarrow> char \<Rightarrow> string" where
  "repr_char q c =
     (if c = q \<or> c = CHR 0x5C then [CHR 0x5C, c]
      else if c = CHR 0x09 then [CHR 0x5C, CHR ''t'']
      else if c = CHR 0x0A then [CHR 0x5C, CHR ''n'']
      else if c = CHR 0x0D then [CHR 0x5C, CHR ''r'']
      else if printable_char c then [c]
      else [CHR 0x5C, CHR ''x'',
            digit_char ((of_char c :: nat) div 16), digit_char ((of_char c :: nat) mod 16)])"

definition repr_str :: "string \<Rightarrow> string" where
  "repr_str s =
     (let q = (if CHR 0x27 \<in> set s \<and> CHR 0x22 \<notin> set s then CHR 0x22 else CHR 0x27)
      in [q] @ concat (map (repr_char q) s) @ [q])"

fun repr_key :: "pykey \<Rightarrow> string" where
  "repr_key KNone = ''None''"
| "repr_key (KBool b) = (if b then ''True'' else ''False'')"
| "repr_key (KInt i) = string_of_int i"
| "repr_key (KStr s) = repr_str s"

primrec py_repr :: "pyval \<Rightarrow> string" where
  "py_repr PNone = ''None''"
| "py_repr (PBool b) = (if b then ''True'' else ''False'')"
| "py_repr (PInt i) = string_of_int i"
| "py_repr (PStr s) = repr_str s"
| "py_repr (PList xs) = ''['' @ join '', '' (map py_repr xs) @ '']''"
| "py_repr (PDict d) =
     ''{'' @ join '', '' (map (\<lambda>kr. repr_key (fst kr) @ '': '' @ snd kr)
                              (map (map_prod id py_repr) d)) @ ''}''"

text \<open>\<^verbatim>\<open>str(v)\<close>, which is also what an f-string puts in for \<^verbatim>\<open>{v}\<close>.\<close>

definition py_str :: "pyval \<Rightarrow> string" where
  "py_str v = (case v of PStr s \<Rightarrow> s | _ \<Rightarrow> py_repr v)"

definition key_str :: "pykey \<Rightarrow> string" where
  "key_str k = py_str (of_key k)"

text \<open>
  \<^verbatim>\<open>
  def as_str(v) -> str:
      if v is None:
          return ""
      return str(v)
  \<close>
\<close>

definition as_str :: "pyval \<Rightarrow> string" where
  "as_str v = (if v = PNone then [] else py_str v)"

text \<open>
  \<^verbatim>\<open>str.strip()\<close> removes leading and trailing whitespace: the characters for which
  \<^verbatim>\<open>str.isspace\<close> holds.
\<close>

definition is_space :: "char \<Rightarrow> bool" where
  "is_space c =
     (let n = (of_char c :: nat)
      in (9 \<le> n \<and> n \<le> 13) \<or> (28 \<le> n \<and> n \<le> 32) \<or> n = 133 \<or> n = 160)"

definition strip :: "string \<Rightarrow> string" where
  "strip s = rev (dropWhile is_space (rev (dropWhile is_space s)))"

text \<open>
  \<^verbatim>\<open>shlex.quote\<close> of the standard library: the empty string becomes \<^verbatim>\<open>''\<close>, a
  string of safe characters (ASCII letters, digits and \<^verbatim>\<open>_@%+=:,./-\<close>) is kept,
  anything else is put in single quotes, each single quote inside written \<^verbatim>\<open>'"'"'\<close>.
\<close>

definition safe_char :: "char \<Rightarrow> bool" where
  "safe_char c =
     (let n = (of_char c :: nat)
      in (48 \<le> n \<and> n \<le> 57) \<or> (65 \<le> n \<and> n \<le> 90) \<or> (97 \<le> n \<and> n \<le> 122)
         \<or> c \<in> set ''_@%+=:,./-'')"

definition shlex_quote :: "string \<Rightarrow> string" where
  "shlex_quote s =
     (if s = [] then [CHR 0x27, CHR 0x27]
      else if list_all safe_char s then s
      else [CHR 0x27]
           @ concat (map (\<lambda>c. if c = CHR 0x27
                               then [CHR 0x27, CHR 0x22, CHR 0x27, CHR 0x22, CHR 0x27]
                               else [c]) s)
           @ [CHR 0x27])"

section \<open>CommandBuilder: the create-stage command\<close>

text \<open>
  \<^verbatim>\<open>
  def require(cond: bool, msg: str):
      if not cond:
          raise ValueError(msg)
  \<close>
\<close>

definition require :: "bool \<Rightarrow> string \<Rightarrow> pyexc + unit" where
  "require cond msg = (if \<not> cond then Inl (ValueError msg) else Inr ())"

text \<open>\<^verbatim>\<open>m.get(k, dflt)\<close> on the merged stage record, which is a dict.\<close>

definition dget :: "(pykey \<times> pyval) list \<Rightarrow> string \<Rightarrow> pyval \<Rightarrow> pyval" where
  "dget m k dflt = (case dict_get (KStr k) m of None \<Rightarrow> dflt | Some v \<Rightarrow> v)"

text \<open>\<^verbatim>\<open>if k in m: cmd += [flag, as_str(m[k])]\<close>\<close>

definition flag_if_present :: "(pykey \<times> pyval) list \<Rightarrow> string \<Rightarrow> string \<Rightarrow> string list" where
  "flag_if_present m k flag =
     (case dict_get (KStr k) m of None \<Rightarrow> [] | Some v \<Rightarrow> [flag, as_str v])"

text \<open>\<^verbatim>\<open>if k in m and m[k] is not None: cmd += [flag, prefix + as_str(m[k])]\<close>\<close>

definition flag_if_not_none ::
  "(pykey \<times> pyval) list \<Rightarrow> string \<Rightarrow> string \<Rightarrow> string \<Rightarrow> string list" where
  "flag_if_not_none m k flag prefix =
     (case dict_get (KStr k) m of
        None \<Rightarrow> []
      | Some v \<Rightarrow> if v \<noteq> PNone then [flag, prefix @ as_str v] else [])"

text \<open>\<^verbatim>\<open>if m.get(k): cmd += [flag, as_str(m[k])]\<close>\<close>

definition flag_if_truthy :: "(pykey \<times> pyval) list \<Rightarrow> string \<Rightarrow> string \<Rightarrow> string list" where
  "flag_if_truthy m k flag =
     (let v = dget m k PNone in if py_truthy v then [flag, as_str v] else [])"

text \<open>The resource flags, lines 170 to 177 of the source.\<close>

definition sec_resources :: "(pykey \<times> pyval) list \<Rightarrow> string list" where
  "sec_resources m =
     flag_if_present m ''wall_seconds'' ''--wall-seconds''
     @ flag_if_present m ''rss_mib'' ''--rss-mib''
     @ flag_if_present m ''processors'' ''--processors''
     @ (if py_truthy (dget m ''gpu'' (PBool False)) then [''--gpu''] else [])"

text \<open>
  \<^verbatim>\<open>
  env = st_merged.get("env", {}) or {}
  require(isinstance(env, dict), f"Stage {stage_id}: env must be a dict of KEY: VALUE")
  for k, v in env.items():
      cmd += ["--env", f"{k}={v}"]
  \<close>
\<close>

definition sec_env :: "string \<Rightarrow> (pykey \<times> pyval) list \<Rightarrow> pyexc + string list" where
  "sec_env stage_id m =
     (case py_or (dget m ''env'' (PDict [])) (PDict []) of
        PDict env \<Rightarrow>
          Inr (concat (map (\<lambda>kv. [''--env'', key_str (fst kv) @ ''='' @ py_str (snd kv)]) env))
      | _ \<Rightarrow> Inl (ValueError (''Stage '' @ stage_id @ '': env must be a dict of KEY: VALUE'')))"

text \<open>
  \<^verbatim>\<open>
  if "dunesw_version" in st_merged and st_merged["dunesw_version"] is not None:
      cmd += ["--env", "DUNESW_VERSION="+as_str(st_merged["dunesw_version"])]
  else:
      cmd += "--env DUNESW_VERSION=v10_17_01d00"
  \<close>
  In the \<^verbatim>\<open>else\<close> branch the right-hand side of \<^verbatim>\<open>+=\<close> is a string, not a list:
  Python extends the list \<^verbatim>\<open>cmd\<close> by the elements of the string, which are its
  characters, each as a string of length one.
\<close>

definition list_extend_str :: "string list \<Rightarrow> string \<Rightarrow> string list" where
  "list_extend_str cmd s = cmd @ map (\<lambda>c. [c]) s"

definition sec_dunesw :: "(pykey \<times> pyval) list \<Rightarrow> string list" where
  "sec_dunesw m =
     (case dict_get (KStr ''dunesw_version'') m of
        None \<Rightarrow> list_extend_str [] ''--env DUNESW_VERSION=v10_17_01d00''
      | Some v \<Rightarrow>
          if v \<noteq> PNone then [''--env'', ''DUNESW_VERSION='' @ as_str v]
          else list_extend_str [] ''--env DUNESW_VERSION=v10_17_01d00'')"

text \<open>
  \<^verbatim>\<open>
  if "output_patterns" in st_merged and st_merged["output_patterns"]:
      ops = st_merged["output_patterns"]
      require(isinstance(ops, list), f"Stage {stage_id}: output_patterns must be a list")
      for pat in ops:
          cmd += ["--output-pattern", as_str(pat)]
  elif "output_pattern" in st_merged and st_merged["output_pattern"]:
      cmd += ["--output-pattern", as_str(st_merged["output_pattern"])]
  \<close>
\<close>

definition sec_output_patterns :: "string \<Rightarrow> (pykey \<times> pyval) list \<Rightarrow> pyexc + string list" where
  "sec_output_patterns stage_id m =
     (if py_truthy (dget m ''output_patterns'' PNone) then
        (case dget m ''output_patterns'' PNone of
           PList ops \<Rightarrow> Inr (concat (map (\<lambda>pat. [''--output-pattern'', as_str pat]) ops))
         | _ \<Rightarrow> Inl (ValueError (''Stage '' @ stage_id @ '': output_patterns must be a list'')))
      else if py_truthy (dget m ''output_pattern'' PNone) then
        Inr [''--output-pattern'', as_str (dget m ''output_pattern'' PNone)]
      else Inr [])"

text \<open>
  \<^verbatim>\<open>
  if st_merged.get("sites"):
      sites = st_merged["sites"]
      require(isinstance(sites, list), f"Stage {stage_id}: sites must be a list")
      for s in sites:
          cmd += ["--site", as_str(s)]
  \<close>
\<close>

definition sec_sites :: "string \<Rightarrow> (pykey \<times> pyval) list \<Rightarrow> pyexc + string list" where
  "sec_sites stage_id m =
     (if py_truthy (dget m ''sites'' PNone) then
        (case dget m ''sites'' PNone of
           PList sites \<Rightarrow> Inr (concat (map (\<lambda>s. [''--site'', as_str s]) sites))
         | _ \<Rightarrow> Inl (ValueError (''Stage '' @ stage_id @ '': sites must be a list'')))
      else Inr [])"

text \<open>
  \<^verbatim>\<open>
  if st_merged.get("classad"):
      ca = st_merged["classad"]
      if isinstance(ca, list):
          for one in ca:
              cmd += ["--classad", as_str(one)]
      else:
          cmd += ["--classad", as_str(ca)]
  \<close>
\<close>

definition sec_classad :: "(pykey \<times> pyval) list \<Rightarrow> string list" where
  "sec_classad m =
     (if py_truthy (dget m ''classad'' PNone) then
        (case dget m ''classad'' PNone of
           PList ca \<Rightarrow> concat (map (\<lambda>one. [''--classad'', as_str one]) ca)
         | ca \<Rightarrow> [''--classad'', as_str ca])
      else [])"

text \<open>
  The flags between the software version and the output patterns (lines 196 to 203),
  and those between the output patterns and the sites (lines 218 to 229).
\<close>

definition sec_fhicl_next :: "(pykey \<times> pyval) list \<Rightarrow> string list" where
  "sec_fhicl_next m =
     flag_if_not_none m ''fhicl_files'' ''--env'' ''FCL_TGZ_URL=''
     @ (case dict_get (KStr ''output_pattern_next_stage'') m of
          None \<Rightarrow> []
        | Some v \<Rightarrow> if py_truthy v then [''--output-pattern-next-stage'', as_str v] else [])"

definition sec_rse_lifetime :: "(pykey \<times> pyval) list \<Rightarrow> string list" where
  "sec_rse_lifetime m =
     flag_if_truthy m ''output_rse'' ''--output-rse''
     @ flag_if_truthy m ''output_rse_expression'' ''--output-rse-expression''
     @ flag_if_not_none m ''lifetime_days'' ''--lifetime-days'' []
     @ flag_if_not_none m ''max_distance'' ''--max-distance'' []"

text \<open>
  The body of the \<^verbatim>\<open>for st in stages\<close> loop up to the call of \<^verbatim>\<open>run_cmd\<close>
  (lines 149 to 247): it checks the entry, merges the defaults and builds the
  command. It prints nothing and runs nothing, so it is a function of the entry; it
  gives the stage id and the command, or the exception it raises. The flags are
  appended in the order of the source, and a section that raises does so after all
  sections before it were built.
\<close>

definition isinstance_dict :: "pyval \<Rightarrow> bool" where
  "isinstance_dict v = (case v of PDict d \<Rightarrow> True | _ \<Rightarrow> False)"

fun is_infix :: "string \<Rightarrow> string \<Rightarrow> bool" where
  "is_infix k [] = (k = [])"
| "is_infix k (c # s) = (take (length k) (c # s) = k \<or> is_infix k s)"

text \<open>
  \<^verbatim>\<open>k in x\<close> for a string \<open>k\<close>: a key of a dict, an element of a list, a substring
  of a string.
\<close>

fun py_in :: "string \<Rightarrow> pyval \<Rightarrow> pyexc + bool" where
  "py_in k (PDict d) = Inr (dict_get (KStr k) d \<noteq> None)"
| "py_in k (PList xs) = Inr (PStr k \<in> set xs)"
| "py_in k (PStr s) = Inr (is_infix k s)"
| "py_in k PNone = Inl TypeError"
| "py_in k (PBool b) = Inl TypeError"
| "py_in k (PInt i) = Inl TypeError"

text \<open>\<^verbatim>\<open>x[k]\<close> for a string \<open>k\<close>\<close>

fun py_subscript :: "pyval \<Rightarrow> string \<Rightarrow> pyexc + pyval" where
  "py_subscript (PDict d) k =
     (case dict_get (KStr k) d of None \<Rightarrow> Inl KeyError | Some v \<Rightarrow> Inr v)"
| "py_subscript x k = Inl TypeError"

text \<open>
  Lines 153 to 203: the stage id, the required fields, and the flags up to
  \<^verbatim>\<open>--output-pattern-next-stage\<close>.
\<close>

definition cmd_head ::
  "string list \<Rightarrow> string \<Rightarrow> pyval \<Rightarrow> (pykey \<times> pyval) list \<Rightarrow> pyexc + (string \<times> string list)" where
  "cmd_head justin_global wfid defaults st_merged =
     bindE (py_subscript (PDict st_merged) ''id'') (\<lambda>idv.
     let stage_id = as_str idv in
     bindE (py_get defaults ''repo'' PNone) (\<lambda>drepo.
     let repo = dget st_merged ''repo'' drepo in
     bindE (py_get defaults ''ref'' PNone) (\<lambda>dref.
     let ref = dget st_merged ''ref'' dref;
         jobscript = dget st_merged ''jobscript'' PNone in
     bindE (require (py_truthy repo)
              (''Stage '' @ stage_id @ '': repo missing (set defaults.repo or stage.repo).'')) (\<lambda>_.
     bindE (require (py_truthy ref)
              (''Stage '' @ stage_id @ '': ref missing (set defaults.ref or stage.ref).'')) (\<lambda>_.
     bindE (require (py_truthy jobscript) (''Stage '' @ stage_id @ '': jobscript missing.'')) (\<lambda>_.
     bindE (sec_env stage_id st_merged) (\<lambda>env_flags.
     Inr (stage_id,
          justin_global @
          [''create-stage'',
           ''--workflow-id'', as_str (PStr wfid),
           ''--stage-id'', stage_id,
           ''--jobscript-git'', py_str repo @ ''/'' @ py_str jobscript @ '':'' @ py_str ref]
          @ sec_resources st_merged
          @ env_flags
          @ flag_if_not_none st_merged ''tarfile_dir'' ''--env'' ''INPUT_TAR_DIR_LOCAL=''
          @ sec_dunesw st_merged
          @ sec_fhicl_next st_merged))))))))"

text \<open>Lines 218 to 247: the flags after the output patterns.\<close>

definition cmd_tail :: "string \<Rightarrow> (pykey \<times> pyval) list \<Rightarrow> pyexc + string list" where
  "cmd_tail stage_id st_merged =
     bindE (sec_sites stage_id st_merged) (\<lambda>site_flags.
     Inr (sec_rse_lifetime st_merged @ site_flags @ sec_classad st_merged))"

text \<open>The create-stage command of a merged stage record, with the stage id.\<close>

definition build_create_stage ::
  "string list \<Rightarrow> string \<Rightarrow> pyval \<Rightarrow> (pykey \<times> pyval) list \<Rightarrow> pyexc + (string \<times> string list)" where
  "build_create_stage justin_global wfid defaults st_merged =
     bindE (cmd_head justin_global wfid defaults st_merged) (\<lambda>hd.
     bindE (sec_output_patterns (fst hd) st_merged) (\<lambda>op_flags.
     bindE (cmd_tail (fst hd) st_merged) (\<lambda>tl.
     Inr (fst hd, snd hd @ op_flags @ tl))))"

definition stage_cmd ::
  "string list \<Rightarrow> string \<Rightarrow> pyval \<Rightarrow> pyval \<Rightarrow> pyexc + (string \<times> string list)" where
  "stage_cmd justin_global wfid defaults st =
     bindE (require (isinstance_dict st) ''Each stage entry must be a mapping/dict.'') (\<lambda>_.
     bindE (py_in ''id'' st) (\<lambda>has_id.
     bindE (require has_id (''Each stage needs an '' @ [CHR 0x27] @ ''id'' @ [CHR 0x27] @ ''.'')) (\<lambda>_.
     bindE (merge_defaults st defaults) (\<lambda>st_merged.
     build_create_stage justin_global wfid defaults st_merged))))"

section \<open>Executor\<close>

text \<open>
  What a run does to the outside is a trace of events in the order they happen: a
  line printed on standard output, a line printed on standard error, a call of
  \<^verbatim>\<open>subprocess.run\<close> with its argument vector, which is the only place where the
  program starts a process.
\<close>

datatype event = Out string | Err string | Spawn "string list"

fun spawned :: "event list \<Rightarrow> string list list" where
  "spawned [] = []"
| "spawned (Spawn c # es) = c # spawned es"
| "spawned (e # es) = spawned es"

text \<open>
  The outside world: what \<^verbatim>\<open>subprocess.run\<close> does when it is called with an argument
  vector after the events so far. Either it raises (\<open>None\<close>: the process could not be
  started, or its output could not be decoded), or the process ends and answers with
  its exit status, its standard output and its standard error.
\<close>

type_synonym world = "event list \<Rightarrow> string list \<Rightarrow> (int \<times> string \<times> string) option"

record completed =
  returncode :: int
  stdout :: "string option"
  stderr :: "string option"

definition prelude :: string where
  "prelude =
     ''source /cvmfs/dune.opensciencegrid.org/products/dune/setup_dune.sh >/dev/null 2>&1; ''
     @ ''setup justin >/dev/null 2>&1; ''"

definition build_justin_cmd :: "string list \<Rightarrow> bool \<Rightarrow> string list" where
  "build_justin_cmd argv_list with_dune_setup =
     (if \<not> with_dune_setup then argv_list
      else [''bash'', ''-lc'', prelude @ join '' '' (map shlex_quote argv_list)])"

text \<open>
  \<^verbatim>\<open>
  def run_cmd(argv_list, dry_run, with_dune_setup, capture=False):
      real_argv = build_justin_cmd(argv_list, with_dune_setup)
      printable = " ".join(shlex.quote(x) for x in real_argv)
      print(f"+ {printable}")
      if dry_run:
          class Dummy:
              returncode = 0
              stdout = ""
              stderr = ""
          return Dummy()
      return subprocess.run(real_argv, check=False, text=True,
          stdout=subprocess.PIPE if capture else None,
          stderr=subprocess.PIPE if capture else None)
  \<close>
  Without \<^verbatim>\<open>capture\<close> the result of \<^verbatim>\<open>subprocess.run\<close> has \<^verbatim>\<open>None\<close> for both
  streams. An exception of \<^verbatim>\<open>subprocess.run\<close> is not caught here.
\<close>

definition run_cmd ::
  "world \<Rightarrow> string list \<Rightarrow> bool \<Rightarrow> bool \<Rightarrow> bool \<Rightarrow> event list
     \<Rightarrow> (pyexc + completed) \<times> event list" where
  "run_cmd w argv_list dry_run with_dune_setup capture tr =
     (let real_argv = build_justin_cmd argv_list with_dune_setup;
          printable = join '' '' (map shlex_quote real_argv);
          tr1 = tr @ [Out (''+ '' @ printable)]
      in if dry_run then
           (Inr \<lparr>returncode = 0, stdout = Some [], stderr = Some []\<rparr>, tr1)
         else
           (case w tr1 real_argv of
              None \<Rightarrow> (Inl RunError, tr1 @ [Spawn real_argv])
            | Some (rc, out, err) \<Rightarrow>
                (Inr \<lparr>returncode = rc,
                     stdout = (if capture then Some out else None),
                     stderr = (if capture then Some err else None)\<rparr>,
                 tr1 @ [Spawn real_argv])))"

section \<open>OrchestrationEngine\<close>

text \<open>
  The command line options of \<^verbatim>\<open>main\<close>. The configuration document is passed as the
  object that \<^verbatim>\<open>load_config\<close> gave. A run ends by returning from \<^verbatim>\<open>main\<close> (the
  process exit status is 0), by \<^verbatim>\<open>sys.exit(n)\<close>, or by an exception that nothing
  catches.
\<close>

record args =
  dry_run :: bool
  with_dune_setup :: bool
  instance_opt :: "string option"
  url :: "string option"
  verbose :: bool

datatype outcome = Returned | SysExit int | Uncaught pyexc

text \<open>
  \<^verbatim>\<open>
  justin_global = ["justin"]
  if args.verbose:
      justin_global.append("-v")
  if args.instance:
      justin_global += ["--instance", args.instance]
  if args.url:
      justin_global += ["--url", args.url]
  \<close>
\<close>

definition opt_flag :: "string \<Rightarrow> string option \<Rightarrow> string list" where
  "opt_flag flag v = (case v of None \<Rightarrow> [] | Some s \<Rightarrow> if s \<noteq> [] then [flag, s] else [])"

definition justin_global :: "args \<Rightarrow> string list" where
  "justin_global a =
     [''justin''] @ (if verbose a then [''-v''] else [])
     @ opt_flag ''--instance'' (instance_opt a) @ opt_flag ''--url'' (url a)"

text \<open>
  Lines 113 to 135: reading the three parts of the document, the checks made before
  anything runs, and the create-workflow command. The result is the defaults, the
  list of stage entries and that command.
\<close>

definition prepare :: "args \<Rightarrow> pyval \<Rightarrow> pyexc + (pyval \<times> pyval list \<times> string list)" where
  "prepare a cfg =
     bindE (py_get cfg ''workflow'' (PDict [])) (\<lambda>wv.
     let workflow = py_or wv (PDict []) in
     bindE (py_get cfg ''defaults'' (PDict [])) (\<lambda>dv.
     let defaults = py_or dv (PDict []) in
     bindE (py_get cfg ''stages'' (PList [])) (\<lambda>sv.
     let stages = py_or sv (PList []) in
     bindE (require (case stages of PList xs \<Rightarrow> length xs > 0 | _ \<Rightarrow> False)
              (''Config must contain a non-empty '' @ [CHR 0x27] @ ''stages:'' @ [CHR 0x27] @ '' list.'')) (\<lambda>_.
     bindE (py_in ''description'' workflow) (\<lambda>has_d.
     bindE (require has_d ''workflow.description is required'') (\<lambda>_.
     bindE (py_in ''monte_carlo'' workflow) (\<lambda>has_m.
     bindE (require has_m ''workflow.monte_carlo is required'') (\<lambda>_.
     bindE (py_subscript workflow ''description'') (\<lambda>description.
     bindE (py_subscript workflow ''monte_carlo'') (\<lambda>monte_carlo.
     Inr (defaults,
          (case stages of PList xs \<Rightarrow> xs | _ \<Rightarrow> []),
          justin_global a @
            [''create-workflow'',
             ''--description'', as_str description,
             ''--monte-carlo'', as_str monte_carlo])))))))))))"

text \<open>
  \<^verbatim>\<open>
  print("ERROR: ...", file=sys.stderr)
  if hasattr(cp, "stderr") and cp.stderr:
      print(cp.stderr, file=sys.stderr)
  \<close>
\<close>

definition report_failure :: "string \<Rightarrow> completed \<Rightarrow> event list \<Rightarrow> event list" where
  "report_failure msg cp tr =
     tr @ [Err msg]
     @ (case stderr cp of None \<Rightarrow> [] | Some e \<Rightarrow> if e \<noteq> [] then [Err e] else [])"

text \<open>
  The loop over the stage entries, in the order of the list. It gives \<open>None\<close> when
  every entry was handled and the run goes on, and the way the run ends otherwise.
\<close>

fun create_stages ::
  "world \<Rightarrow> args \<Rightarrow> string \<Rightarrow> pyval \<Rightarrow> pyval list \<Rightarrow> event list \<Rightarrow> outcome option \<times> event list" where
  "create_stages w a wfid defaults [] tr = (None, tr)"
| "create_stages w a wfid defaults (st # rest) tr =
     (case stage_cmd (justin_global a) wfid defaults st of
        Inl e \<Rightarrow> (Some (Uncaught e), tr)
      | Inr (stage_id, cmd) \<Rightarrow>
          (case run_cmd w cmd (dry_run a) (with_dune_setup a) True tr of
             (Inl e, tr1) \<Rightarrow> (Some (Uncaught e), tr1)
           | (Inr cp, tr1) \<Rightarrow>
               if returncode cp \<noteq> 0 then
                 (Some (SysExit 3),
                  report_failure (''ERROR: create-stage failed for stage '' @ stage_id @ ''.'') cp tr1)
               else create_stages w a wfid defaults rest tr1))"

text \<open>Lines 257 to 269: submit-workflow, then show-stages, whose result is not read.\<close>

definition submit_and_show :: "world \<Rightarrow> args \<Rightarrow> string \<Rightarrow> event list \<Rightarrow> outcome \<times> event list" where
  "submit_and_show w a wfid tr =
     (case run_cmd w (justin_global a @ [''submit-workflow'', ''--workflow-id'', as_str (PStr wfid)])
             (dry_run a) (with_dune_setup a) True tr of
        (Inl e, tr1) \<Rightarrow> (Uncaught e, tr1)
      | (Inr cp, tr1) \<Rightarrow>
          if returncode cp \<noteq> 0 then
            (SysExit 4, report_failure ''ERROR: submit-workflow failed.'' cp tr1)
          else
            (let tr2 = tr1 @ [Out (''Submitted WFID='' @ wfid)]
             in case run_cmd w (justin_global a @ [''show-stages'', ''--workflow-id'', as_str (PStr wfid)])
                       (dry_run a) (with_dune_setup a) False tr2 of
                  (Inl e, tr3) \<Rightarrow> (Uncaught e, tr3)
                | (Inr cp2, tr3) \<Rightarrow> (Returned, tr3)))"

text \<open>
  \<^verbatim>\<open>main\<close> from line 113 on.
  \<^verbatim>\<open>
  cp = run_cmd(create_wf, dry_run=args.dry_run, with_dune_setup=args.with_dune_setup, capture=True)
  if getattr(cp, "returncode", 1) != 0:
      print("ERROR: create-workflow failed.", file=sys.stderr)
      if hasattr(cp, "stderr") and cp.stderr:
          print(cp.stderr, file=sys.stderr)
      sys.exit(2)
  wfid = (cp.stdout or "").strip() if not args.dry_run else "DRYRUN_WFID"
  require(wfid != "", "Could not parse workflow id from create-workflow output.")
  print(f"WFID={wfid}")
  \<close>
\<close>

definition main :: "args \<Rightarrow> pyval \<Rightarrow> world \<Rightarrow> outcome \<times> event list" where
  "main a cfg w =
     (case prepare a cfg of
        Inl e \<Rightarrow> (Uncaught e, [])
      | Inr (defaults, stages, create_wf) \<Rightarrow>
          (case run_cmd w create_wf (dry_run a) (with_dune_setup a) True [] of
             (Inl e, tr1) \<Rightarrow> (Uncaught e, tr1)
           | (Inr cp, tr1) \<Rightarrow>
               if returncode cp \<noteq> 0 then
                 (SysExit 2, report_failure ''ERROR: create-workflow failed.'' cp tr1)
               else
                 (let wfid = (if \<not> dry_run a
                              then strip (case stdout cp of None \<Rightarrow> [] | Some s \<Rightarrow> s)
                              else ''DRYRUN_WFID'')
                  in case require (wfid \<noteq> [])
                            ''Could not parse workflow id from create-workflow output.'' of
                       Inl e \<Rightarrow> (Uncaught e, tr1)
                     | Inr _ \<Rightarrow>
                         (case create_stages w a wfid defaults stages
                                 (tr1 @ [Out (''WFID='' @ wfid)]) of
                            (Some oc, tr2) \<Rightarrow> (oc, tr2)
                          | (None, tr2) \<Rightarrow> submit_and_show w a wfid tr2))))"

text \<open>
  The exit status of the process. An exception that nothing catches makes the
  interpreter print the traceback and exit with status 1.
\<close>

fun exit_status :: "outcome \<Rightarrow> int" where
  "exit_status Returned = 0"
| "exit_status (SysExit n) = n"
| "exit_status (Uncaught e) = 1"

section \<open>Reading a command and example inputs\<close>

text \<open>Two tokens that stand next to each other in an argument vector, in this order.\<close>

fun adjacent :: "'a \<Rightarrow> 'a \<Rightarrow> 'a list \<Rightarrow> bool" where
  "adjacent x y (a # b # r) = ((a = x \<and> b = y) \<or> adjacent x y (b # r))"
| "adjacent x y [a] = False"
| "adjacent x y [] = False"

text \<open>The options of a run with \<^verbatim>\<open>--config\<close> only, and the same with \<^verbatim>\<open>--dry-run\<close>.\<close>

definition plain_args :: args where
  "plain_args =
     \<lparr>dry_run = False, with_dune_setup = False, instance_opt = None, url = None,
      verbose = False\<rparr>"


text \<open>A stage that names everything a stage must name, and no \<^verbatim>\<open>dunesw_version\<close>.\<close>

definition gen_stage :: pyval where
  "gen_stage =
     PDict [(KStr ''id'', PInt 1), (KStr ''repo'', PStr ''org/repo''),
            (KStr ''ref'', PStr ''main''), (KStr ''jobscript'', PStr ''gen.jobscript'')]"

definition gen_workflow :: pyval where
  "gen_workflow = PDict [(KStr ''description'', PStr ''gen''), (KStr ''monte_carlo'', PInt 5)]"


definition cfg_no_id :: pyval where
  "cfg_no_id =
     PDict [(KStr ''workflow'', gen_workflow),
            (KStr ''stages'', PList [PDict [(KStr ''jobscript'', PStr ''gen.jobscript'')]])]"

text \<open>A document with three stages that take everything but the job script from the defaults.\<close>

definition three_defaults :: pyval where
  "three_defaults =
     PDict [(KStr ''repo'', PStr ''org/repo''), (KStr ''ref'', PStr ''main''),
            (KStr ''dunesw_version'', PStr ''v10'')]"

definition cfg_three :: pyval where
  "cfg_three =
     PDict [(KStr ''workflow'', gen_workflow),
            (KStr ''defaults'', three_defaults),
            (KStr ''stages'',
             PList [PDict [(KStr ''id'', PInt 1), (KStr ''jobscript'', PStr ''a.jobscript'')],
                    PDict [(KStr ''id'', PInt 2), (KStr ''jobscript'', PStr ''b.jobscript'')],
                    PDict [(KStr ''id'', PInt 3), (KStr ''jobscript'', PStr ''c.jobscript'')]])]"

text \<open>The same document with a second entry that is a string, not a mapping.\<close>

definition cfg_second_bad :: pyval where
  "cfg_second_bad =
     PDict [(KStr ''workflow'', gen_workflow),
            (KStr ''defaults'', three_defaults),
            (KStr ''stages'',
             PList [PDict [(KStr ''id'', PInt 1), (KStr ''jobscript'', PStr ''a.jobscript'')],
                    PStr ''oops'',
                    PDict [(KStr ''id'', PInt 3), (KStr ''jobscript'', PStr ''c.jobscript'')]])]"

text \<open>
  Three worlds. In the first every process succeeds and prints \<^verbatim>\<open>77\<close> and a newline. In
  the second every process succeeds and prints a blank and a newline. In the third the
  process that is given \<^verbatim>\<open>--stage-id 2\<close> fails with status 1 and \<^verbatim>\<open>boom\<close> on standard
  error, and every other process is as in the first.
\<close>

definition world_ok :: world where
  "world_ok tr argv = Some (0, ''77'' @ [CHR 0x0A], [])"


definition world_fail2 :: world where
  "world_fail2 tr argv =
     (if adjacent ''--stage-id'' ''2'' argv then Some (1, [], ''boom'')
      else Some (0, ''77'' @ [CHR 0x0A], []))"

section \<open>DefaultsMerger on a store of objects\<close>

text \<open>
  A Python dict or list is an object, and a variable or an entry of a container holds a
  reference to it. To say what \<^verbatim>\<open>merge_defaults\<close> does to the objects it is given,
  this section reads the same seven lines of the source on a store: a list of objects,
  in which a reference is an index. Creating an object appends it to the store, and
  \<^verbatim>\<open>update\<close> and \<^verbatim>\<open>merged["env"] = env_d\<close> write the object at an index. A reference
  outside the store is not a state of a Python program; reading through it is the error
  \<open>Dangling\<close>.
\<close>

datatype hval = HNone | HBool bool | HInt int | HStr string | HRef nat

datatype hobj = HList "hval list" | HDict "(pykey \<times> hval) list"

type_synonym heap = "hobj list"

datatype herr = Raised pyexc | Dangling

fun h_of_key :: "pykey \<Rightarrow> hval" where
  "h_of_key KNone = HNone"
| "h_of_key (KBool b) = HBool b"
| "h_of_key (KInt i) = HInt i"
| "h_of_key (KStr s) = HStr s"

text \<open>Lists and dicts are unhashable, and a reference is to one of them.\<close>

fun h_to_key :: "hval \<Rightarrow> pykey option" where
  "h_to_key HNone = Some KNone"
| "h_to_key (HBool b) = Some (KBool b)"
| "h_to_key (HInt i) = Some (KInt i)"
| "h_to_key (HStr s) = Some (KStr s)"
| "h_to_key (HRef a) = None"

definition h_lookup :: "heap \<Rightarrow> nat \<Rightarrow> herr + hobj" where
  "h_lookup h a = (if a < length h then Inr (h ! a) else Inl Dangling)"

text \<open>Truth of a value: a container is true when it is not empty.\<close>

fun h_truthy :: "heap \<Rightarrow> hval \<Rightarrow> herr + bool" where
  "h_truthy h HNone = Inr False"
| "h_truthy h (HBool b) = Inr b"
| "h_truthy h (HInt i) = Inr (i \<noteq> 0)"
| "h_truthy h (HStr s) = Inr (s \<noteq> [])"
| "h_truthy h (HRef a) =
     (case h_lookup h a of
        Inl e \<Rightarrow> Inl e
      | Inr (HList xs) \<Rightarrow> Inr (xs \<noteq> [])
      | Inr (HDict d) \<Rightarrow> Inr (d \<noteq> []))"

text \<open>
  An element of the iterable that \<^verbatim>\<open>dict()\<close> or \<^verbatim>\<open>update()\<close> receives, read as a pair:
  as \<open>seq_pair\<close> above, with the element looked up in the store when it is a reference.
\<close>

fun obj_pair :: "hobj \<Rightarrow> herr + (pykey \<times> hval)" where
  "obj_pair (HList [k, v]) =
     (case h_to_key k of None \<Rightarrow> Inl (Raised TypeError) | Some k' \<Rightarrow> Inr (k', v))"
| "obj_pair (HList xs) = Inl (Raised DictSeqValueError)"
| "obj_pair (HDict [(k1, v1), (k2, v2)]) = Inr (k1, h_of_key k2)"
| "obj_pair (HDict d) = Inl (Raised DictSeqValueError)"

fun h_seq_pair :: "heap \<Rightarrow> hval \<Rightarrow> herr + (pykey \<times> hval)" where
  "h_seq_pair h (HRef a) = (case h_lookup h a of Inl e \<Rightarrow> Inl e | Inr ob \<Rightarrow> obj_pair ob)"
| "h_seq_pair h (HStr [a, b]) = Inr (KStr [a], HStr [b])"
| "h_seq_pair h (HStr s) = Inl (Raised DictSeqValueError)"
| "h_seq_pair h HNone = Inl (Raised TypeError)"
| "h_seq_pair h (HBool b) = Inl (Raised TypeError)"
| "h_seq_pair h (HInt i) = Inl (Raised TypeError)"

text \<open>
  The pairs that \<^verbatim>\<open>update\<close> reads from the elements of a list, in order, up to the
  first element that is no pair, with the error that this element raises. The pairs
  read before it are stored before the error is raised.
\<close>

fun h_pairs :: "heap \<Rightarrow> hval list \<Rightarrow> (pykey \<times> hval) list \<times> herr option" where
  "h_pairs h [] = ([], None)"
| "h_pairs h (x # xs) =
     (case h_seq_pair h x of
        Inl e \<Rightarrow> ([], Some e)
      | Inr kv \<Rightarrow> (case h_pairs h xs of (ps, r) \<Rightarrow> (kv # ps, r)))"

fun h_items :: "heap \<Rightarrow> hval \<Rightarrow> (pykey \<times> hval) list \<times> herr option" where
  "h_items h (HRef a) =
     (case h_lookup h a of
        Inl e \<Rightarrow> ([], Some e)
      | Inr (HDict d) \<Rightarrow> (d, None)
      | Inr (HList xs) \<Rightarrow> h_pairs h xs)"
| "h_items h (HStr s) = (if s = [] then ([], None) else ([], Some (Raised DictSeqValueError)))"
| "h_items h HNone = ([], Some (Raised TypeError))"
| "h_items h (HBool b) = ([], Some (Raised TypeError))"
| "h_items h (HInt i) = ([], Some (Raised TypeError))"

text \<open>
  A computation on the store gives a value or an error, and the store it leaves. An
  error ends the computation; the store stays as it was when the error was raised.
\<close>

definition bindH ::
  "(heap \<Rightarrow> (herr + 'a) \<times> heap) \<Rightarrow> ('a \<Rightarrow> heap \<Rightarrow> (herr + 'b) \<times> heap)
     \<Rightarrow> heap \<Rightarrow> (herr + 'b) \<times> heap" where
  "bindH m f h = (case m h of (Inl e, h') \<Rightarrow> (Inl e, h') | (Inr x, h') \<Rightarrow> f x h')"

text \<open>
  \<^verbatim>\<open>dict(x)\<close>: a new dict with the items of \<open>x\<close>; the result is its address. When reading
  \<open>x\<close> raises, the new dict is dropped, so the store is unchanged.
\<close>

definition h_dict :: "hval \<Rightarrow> heap \<Rightarrow> (herr + nat) \<times> heap" where
  "h_dict x h =
     (case h_items h x of
        (ps, None) \<Rightarrow> (Inr (length h), h @ [HDict (dict_update [] ps)])
      | (ps, Some e) \<Rightarrow> (Inl e, h))"

text \<open>\<^verbatim>\<open>t.update(x)\<close> for the dict \<open>t\<close> at address \<open>a\<close>: it writes the object at \<open>a\<close>.\<close>

definition h_update :: "nat \<Rightarrow> hval \<Rightarrow> heap \<Rightarrow> (herr + unit) \<times> heap" where
  "h_update a x h =
     (case h_lookup h a of
        Inl e \<Rightarrow> (Inl e, h)
      | Inr (HList xs) \<Rightarrow> (Inl (Raised AttributeError), h)
      | Inr (HDict d) \<Rightarrow>
          (case h_items h x of (ps, r) \<Rightarrow>
             (case r of None \<Rightarrow> Inr () | Some e \<Rightarrow> Inl e,
              h[a := HDict (dict_update d ps)])))"

text \<open>\<^verbatim>\<open>t[k] = v\<close> for the dict \<open>t\<close> at address \<open>a\<close>.\<close>

definition h_setitem :: "nat \<Rightarrow> pykey \<Rightarrow> hval \<Rightarrow> heap \<Rightarrow> (herr + unit) \<times> heap" where
  "h_setitem a k v h =
     (case h_lookup h a of
        Inl e \<Rightarrow> (Inl e, h)
      | Inr (HList xs) \<Rightarrow> (Inl (Raised TypeError), h)
      | Inr (HDict d) \<Rightarrow> (Inr (), h[a := HDict (dict_set k v d)]))"

text \<open>
  \<^verbatim>\<open>x.get(k, {}) or {}\<close>: only a dict has the method \<^verbatim>\<open>get\<close>. Each \<^verbatim>\<open>{}\<close> that is
  evaluated is a new empty dict: the first one always, as the argument of \<^verbatim>\<open>get\<close>, the
  second one when the value that \<^verbatim>\<open>get\<close> returns is false.
\<close>

definition h_get_or_empty :: "hval \<Rightarrow> string \<Rightarrow> heap \<Rightarrow> (herr + hval) \<times> heap" where
  "h_get_or_empty x k h =
     (case x of
        HRef a \<Rightarrow>
          (case h_lookup h a of
             Inl e \<Rightarrow> (Inl e, h)
           | Inr (HList xs) \<Rightarrow> (Inl (Raised AttributeError), h)
           | Inr (HDict d) \<Rightarrow>
               (let h1 = h @ [HDict []];
                    v = (case dict_get (KStr k) d of None \<Rightarrow> HRef (length h) | Some v \<Rightarrow> v)
                in case h_truthy h1 v of
                     Inl e \<Rightarrow> (Inl e, h1)
                   | Inr True \<Rightarrow> (Inr v, h1)
                   | Inr False \<Rightarrow> (Inr (HRef (length h1)), h1 @ [HDict []])))
      | _ \<Rightarrow> (Inl (Raised AttributeError), h))"

text \<open>
  \<^verbatim>\<open>merge_defaults\<close>, line by line as in the section on the merger above; the result
  is the reference to \<^verbatim>\<open>merged\<close>.
\<close>

definition merge_defaults_store :: "hval \<Rightarrow> hval \<Rightarrow> heap \<Rightarrow> (herr + hval) \<times> heap" where
  "merge_defaults_store stage defaults =
     bindH (h_dict defaults) (\<lambda>merged.
     bindH (h_update merged stage) (\<lambda>_.
     bindH (h_get_or_empty defaults ''env'') (\<lambda>dv.
     bindH (h_dict dv) (\<lambda>env_d.
     bindH (h_get_or_empty stage ''env'') (\<lambda>sv.
     bindH (h_dict sv) (\<lambda>env_s.
     bindH (h_update env_d (HRef env_s)) (\<lambda>_.
     bindH (h_setitem merged (KStr ''env'') (HRef env_d)) (\<lambda>_.
     (\<lambda>h. (Inr (HRef merged), h))))))))))"

text \<open>The store \<open>h\<close> has all objects of the store \<open>b\<close>, unchanged, at their addresses.\<close>

definition store_extends :: "heap \<Rightarrow> heap \<Rightarrow> bool" where
  "store_extends b h = (length b \<le> length h \<and> take (length b) h = b)"

text \<open>
  A store with a stage at address 2 and defaults at address 3; the \<^verbatim>\<open>env\<close> of the stage
  is the dict at address 0, and the \<^verbatim>\<open>env\<close> of the defaults is the dict at address 1.
\<close>

definition example_store :: heap where
  "example_store =
     [HDict [(KStr ''B'', HInt 3), (KStr ''C'', HInt 4)],
      HDict [(KStr ''A'', HInt 1), (KStr ''B'', HInt 2)],
      HDict [(KStr ''id'', HInt 1), (KStr ''env'', HRef 0)],
      HDict [(KStr ''repo'', HStr ''org/repo''), (KStr ''env'', HRef 1)]]"

section \<open>Facts about dictionaries\<close>

lemma keq_refl [simp]: "keq k k" by (simp add: keq_def)
lemma keq_sym: "keq a b = keq b a" by (auto simp: keq_def)
lemma keq_trans: "keq a b \<Longrightarrow> keq b c \<Longrightarrow> keq a c" by (simp add: keq_def)
lemma keq_KStr [simp]: "keq (KStr a) k = (k = KStr a)" "keq k (KStr a) = (k = KStr a)"
  by (cases k; auto simp: keq_def)+

lemma dict_get_cong_keq: "keq a b \<Longrightarrow> dict_get a d = dict_get b d"
  by (induction d) (auto simp: keq_def)

lemma dict_get_dict_set:
  "dict_get k (dict_set k' v d) = (if keq k k' then Some v else dict_get k d)"
  by (induction d) (auto simp: keq_def)

lemma dict_update_Nil [simp]: "dict_update d [] = d"
  by (simp add: dict_update_def)

lemma dict_update_Cons [simp]: "dict_update d ((k, v) # s) = dict_update (dict_set k v d) s"
  by (simp add: dict_update_def)

lemma dict_get_dict_update:
  "dict_wf s \<Longrightarrow>
   dict_get k (dict_update d s) = (case dict_get k s of Some v \<Rightarrow> Some v | None \<Rightarrow> dict_get k d)"
proof (induction s arbitrary: d)
  case Nil
  then show ?case by simp
next
  case (Cons kv s)
  obtain k' v' where kv: "kv = (k', v')" by (cases kv)
  from Cons.prems kv have none: "dict_get k' s = None" and wf: "dict_wf s" by simp_all
  show ?case
  proof (cases "keq k k'")
    case True
    then have "dict_get k s = None" using none dict_get_cong_keq by metis
    with True Cons.IH [OF wf] kv show ?thesis by (simp add: dict_get_dict_set)
  next
    case False
    with Cons.IH [OF wf] kv show ?thesis by (simp add: dict_get_dict_set split: option.split)
  qed
qed

lemma dict_set_append_new:
  "dict_get k d = None \<Longrightarrow> dict_set k v d = d @ [(k, v)]"
  by (induction d) (auto split: if_splits)

lemma dict_get_append:
  "dict_get k (d @ e) = (case dict_get k d of Some v \<Rightarrow> Some v | None \<Rightarrow> dict_get k e)"
  by (induction d) auto

lemma dict_update_append_wf:
  "dict_wf s \<Longrightarrow> (\<forall>kv \<in> set s. dict_get (fst kv) d = None) \<Longrightarrow> dict_update d s = d @ s"
proof (induction s arbitrary: d)
  case Nil
  then show ?case by simp
next
  case (Cons kv s)
  obtain k v where kv: "kv = (k, v)" by (cases kv)
  from Cons.prems kv have none: "dict_get k s = None" and wf: "dict_wf s"
    and new: "dict_get k d = None" by simp_all
  have rest: "\<forall>x \<in> set s. dict_get (fst x) (d @ [(k, v)]) = None"
  proof
    fix x assume x: "x \<in> set s"
    then have xd: "dict_get (fst x) d = None" using Cons.prems(2) by simp
    have "\<not> keq (fst x) k"
    proof
      assume "keq (fst x) k"
      then have "dict_get (fst x) s = None" using none dict_get_cong_keq by metis
      moreover have "dict_get (fst x) s \<noteq> None" using x
        by (induction s) (auto)
      ultimately show False by simp
    qed
    with xd show "dict_get (fst x) (d @ [(k, v)]) = None" by (simp add: dict_get_append)
  qed
  show ?case using Cons.IH [OF wf rest] kv new by (simp add: dict_set_append_new)
qed

lemma dict_update_Nil_left: "dict_wf s \<Longrightarrow> dict_update [] s = s"
  using dict_update_append_wf [of s "[]"] by simp

lemma dict_set_same: "dict_get k d = Some v \<Longrightarrow> dict_set k v d = d"
  by (induction d) (auto split: if_splits)


lemma dict_wf_dict_set: "dict_wf d \<Longrightarrow> dict_wf (dict_set k v d)"
proof (induction d)
  case Nil
  then show ?case by simp
next
  case (Cons kv d)
  obtain k' v' where kv: "kv = (k', v')" by (cases kv)
  show ?case
  proof (cases "keq k k'")
    case True
    with Cons.prems kv show ?thesis by simp
  next
    case False
    then have "\<not> keq k' k" by (simp add: keq_sym)
    with False Cons kv show ?thesis by (simp add: dict_get_dict_set)
  qed
qed

lemma dict_wf_dict_update: "dict_wf d \<Longrightarrow> dict_wf (dict_update d s)"
proof (induction s arbitrary: d)
  case Nil
  then show ?case by simp
next
  case (Cons kv s)
  obtain k v where kv: "kv = (k, v)" by (cases kv)
  from Cons.prems have "dict_wf (dict_set k v d)" by (rule dict_wf_dict_set)
  from Cons.IH [OF this] kv show ?case by simp
qed

lemma py_dict_wf: "py_dict x = Inr e \<Longrightarrow> dict_wf e"
  by (auto simp: py_dict_def py_update_def bindE_def dict_wf_dict_update split: sum.splits)

section \<open>DefaultsMerger: properties\<close>

lemma py_dict_PDict [simp]: "py_dict (PDict e) = Inr (dict_update [] e)"
  by (simp add: py_dict_def py_update_def bindE_def)

lemma py_dict_or_PDict [simp]: "py_dict (py_or (PDict e) (PDict [])) = Inr (dict_update [] e)"
  by (cases e) (simp_all add: py_or_def)

lemma py_dict_or_falsy: "\<not> py_truthy v \<Longrightarrow> py_dict (py_or v (PDict [])) = Inr []"
  by (simp add: py_or_def)

lemma merge_defaults_dicts:
  "merge_defaults (PDict s) (PDict d) =
     bindE (py_dict (py_or (dget d ''env'' (PDict [])) (PDict []))) (\<lambda>env_d.
     bindE (py_dict (py_or (dget s ''env'' (PDict [])) (PDict []))) (\<lambda>env_s.
     Inr (dict_set (KStr ''env'') (PDict (dict_update env_d env_s))
            (dict_update (dict_update [] d) s))))"
  by (simp add: merge_defaults_def bindE_def py_update_def dget_def split: sum.splits)

text \<open>
  Claim C5. The \<^verbatim>\<open>env\<close> entry of the merged record is the union, key by key, of the
  \<^verbatim>\<open>env\<close> of the defaults and the \<^verbatim>\<open>env\<close> of the stage, with the stage taking
  precedence: a key of the stage's \<^verbatim>\<open>env\<close> has the stage's value, any other key has
  the value it has in the defaults' \<^verbatim>\<open>env\<close>, if any. For the defaults \<^verbatim>\<open>{A:1,B:2}\<close>
  and the stage \<^verbatim>\<open>{B:3,C:4}\<close> the merged \<^verbatim>\<open>env\<close> is \<^verbatim>\<open>{A:1,B:3,C:4}\<close>, which is the
  instance that follows the theorem.
\<close>

theorem env_merge_precedence:
  assumes "dict_get (KStr ''env'') d = Some (PDict ed)"
    and "dict_get (KStr ''env'') s = Some (PDict es)"
    and "dict_wf ed" and "dict_wf es"
  shows "\<exists>m me. merge_defaults (PDict s) (PDict d) = Inr m
           \<and> dict_get (KStr ''env'') m = Some (PDict me)
           \<and> (\<forall>k. dict_get k me =
                  (case dict_get k es of Some v \<Rightarrow> Some v | None \<Rightarrow> dict_get k ed))"
proof -
  let ?me = "dict_update ed es"
  have m: "merge_defaults (PDict s) (PDict d) =
             Inr (dict_set (KStr ''env'') (PDict ?me) (dict_update (dict_update [] d) s))"
    using assms by (simp add: merge_defaults_dicts dget_def bindE_def dict_update_Nil_left)
  have "\<forall>k. dict_get k ?me =
          (case dict_get k es of Some v \<Rightarrow> Some v | None \<Rightarrow> dict_get k ed)"
    using assms(4) by (simp add: dict_get_dict_update)
  with m show ?thesis by (simp add: dict_get_dict_set)
qed

theorem env_merge_precedence_witness:
  "merge_defaults
     (PDict [(KStr ''env'', PDict [(KStr ''B'', PInt 3), (KStr ''C'', PInt 4)])])
     (PDict [(KStr ''env'', PDict [(KStr ''A'', PInt 1), (KStr ''B'', PInt 2)])])
   = Inr [(KStr ''env'', PDict [(KStr ''A'', PInt 1), (KStr ''B'', PInt 3), (KStr ''C'', PInt 4)])]
   \<and> (\<exists>me. dict_get (KStr ''env'')
              [(KStr ''env'', PDict [(KStr ''A'', PInt 1), (KStr ''B'', PInt 3), (KStr ''C'', PInt 4)])]
            = Some (PDict me)
          \<and> (\<forall>k. dict_get k me =
                 (case dict_get k [(KStr ''B'', PInt 3), (KStr ''C'', PInt 4)] of
                    Some v \<Rightarrow> Some v
                  | None \<Rightarrow> dict_get k [(KStr ''A'', PInt 1), (KStr ''B'', PInt 2)])))"
  using env_merge_precedence
    [of "[(KStr ''env'', PDict [(KStr ''A'', PInt 1), (KStr ''B'', PInt 2)])]"
        "[(KStr ''A'', PInt 1), (KStr ''B'', PInt 2)]"
        "[(KStr ''env'', PDict [(KStr ''B'', PInt 3), (KStr ''C'', PInt 4)])]"
        "[(KStr ''B'', PInt 3), (KStr ''C'', PInt 4)]"]
  by (simp add: merge_defaults_dicts dget_def bindE_def)

text \<open>
  Claim C6, as stated, says that merging against empty defaults adds no key. The
  stage \<^verbatim>\<open>{"id": "1"}\<close> has no \<^verbatim>\<open>env\<close>; merged with \<^verbatim>\<open>{}\<close> it becomes
  \<^verbatim>\<open>{"id": "1", "env": {}}\<close>, since \<^verbatim>\<open>merged["env"] = env_d\<close> is executed always.
\<close>

theorem merge_empty_defaults_counterexample:
  "merge_defaults (PDict [(KStr ''id'', PStr ''1'')]) (PDict [])
     = Inr [(KStr ''id'', PStr ''1''), (KStr ''env'', PDict [])]
   \<and> merge_defaults (PDict [(KStr ''id'', PStr ''1'')]) (PDict [])
     \<noteq> Inr [(KStr ''id'', PStr ''1'')]
   \<and> dict_get (KStr ''env'') [(KStr ''id'', PStr ''1'')] = None"
  by (simp add: merge_defaults_dicts dget_def bindE_def py_or_def)

text \<open>
  Claim C6, amended. Let the stage be a dict and the defaults the empty dict. The
  call raises exactly when \<^verbatim>\<open>dict(stage.get("env", {}) or {})\<close> raises, which needs an
  \<^verbatim>\<open>env\<close> that is true and that \<^verbatim>\<open>dict()\<close> cannot convert, such as the number 5.
  Otherwise it returns the entries of the stage, in their order, with \<^verbatim>\<open>env\<close> bound
  to that dict: a key other than \<^verbatim>\<open>env\<close> is neither added nor removed nor altered,
  and \<^verbatim>\<open>env\<close> is bound in the result in any case, so it is added when the stage did
  not have it. When the \<^verbatim>\<open>env\<close> of the stage is a dict the result equals the stage;
  when the stage has no \<^verbatim>\<open>env\<close>, or one that is \<^verbatim>\<open>None\<close> or otherwise false, the
  result is the stage with \<^verbatim>\<open>env\<close> set to the empty dict; when it is another iterable
  of pairs, \<^verbatim>\<open>env\<close> is replaced by the dict made of them.
\<close>

theorem merge_empty_defaults:
  assumes "dict_wf s"
  shows "merge_defaults (PDict s) (PDict []) =
           bindE (py_dict (py_or (dget s ''env'' (PDict [])) (PDict []))) (\<lambda>env_s.
             Inr (dict_set (KStr ''env'') (PDict env_s) s))
         \<and> (\<forall>m. merge_defaults (PDict s) (PDict []) = Inr m \<longrightarrow>
                (\<forall>k. k \<noteq> KStr ''env'' \<longrightarrow> dict_get k m = dict_get k s)
                \<and> (\<exists>e. dict_get (KStr ''env'') m = Some (PDict e))
                \<and> map fst m
                    = (if dict_get (KStr ''env'') s = None then map fst s @ [KStr ''env'']
                       else map fst s))
         \<and> (\<forall>e. dget s ''env'' PNone = PDict e \<and> dict_wf e \<longrightarrow>
                merge_defaults (PDict s) (PDict []) = Inr s)
         \<and> (\<not> py_truthy (dget s ''env'' PNone) \<longrightarrow>
                merge_defaults (PDict s) (PDict [])
                  = Inr (dict_set (KStr ''env'') (PDict []) s))"
proof -
  let ?c = "py_dict (py_or (dget s ''env'' (PDict [])) (PDict []))"
  have upd: "dict_update [] e = e" if "?c = Inr e" for e
    using that by (simp add: py_dict_wf dict_update_Nil_left)
  have eq: "merge_defaults (PDict s) (PDict []) =
              bindE ?c (\<lambda>env_s. Inr (dict_set (KStr ''env'') (PDict env_s) s))"
    using assms upd
    by (cases ?c) (simp_all add: merge_defaults_dicts dget_def bindE_def dict_update_Nil_left)
  have keys: "map fst (dict_set (KStr ''env'') v s)
                = (if dict_get (KStr ''env'') s = None then map fst s @ [KStr ''env'']
                   else map fst s)" for v
    by (induction s) (auto split: if_splits)
  have res: "(\<forall>k. k \<noteq> KStr ''env'' \<longrightarrow> dict_get k m = dict_get k s)
             \<and> (\<exists>e. dict_get (KStr ''env'') m = Some (PDict e))
             \<and> map fst m
                 = (if dict_get (KStr ''env'') s = None then map fst s @ [KStr ''env'']
                    else map fst s)"
    if "merge_defaults (PDict s) (PDict []) = Inr m" for m
  proof -
    from that eq obtain e where m: "m = dict_set (KStr ''env'') (PDict e) s"
      by (cases ?c) (auto simp: bindE_def)
    show ?thesis unfolding m using keys [of "PDict e"] by (simp add: dict_get_dict_set)
  qed
  have isdict: "merge_defaults (PDict s) (PDict []) = Inr s"
    if "dget s ''env'' PNone = PDict e \<and> dict_wf e" for e
  proof -
    from that have g: "dict_get (KStr ''env'') s = Some (PDict e)" and wf: "dict_wf e"
      by (auto simp: dget_def split: option.splits)
    from g wf show ?thesis unfolding eq
      by (simp add: dget_def bindE_def dict_update_Nil_left dict_set_same)
  qed
  have falsy: "merge_defaults (PDict s) (PDict [])
                 = Inr (dict_set (KStr ''env'') (PDict []) s)"
    if "\<not> py_truthy (dget s ''env'' PNone)"
  proof -
    from that have "\<not> py_truthy (dget s ''env'' (PDict []))"
      by (auto simp: dget_def split: option.splits)
    then show ?thesis unfolding eq by (simp add: py_dict_or_falsy bindE_def)
  qed
  from eq res isdict falsy show ?thesis by blast
qed

theorem merge_empty_defaults_witness:
  "dict_wf [(KStr ''id'', PInt 1), (KStr ''env'', PDict [(KStr ''A'', PInt 1)])]
   \<and> merge_defaults (PDict [(KStr ''id'', PInt 1), (KStr ''env'', PDict [(KStr ''A'', PInt 1)])])
         (PDict [])
       = Inr [(KStr ''id'', PInt 1), (KStr ''env'', PDict [(KStr ''A'', PInt 1)])]
   \<and> merge_defaults (PDict [(KStr ''id'', PInt 1), (KStr ''env'', PNone)]) (PDict [])
       = Inr [(KStr ''id'', PInt 1), (KStr ''env'', PDict [])]
   \<and> merge_defaults (PDict [(KStr ''id'', PInt 1), (KStr ''env'', PInt 5)]) (PDict [])
       = Inl TypeError
   \<and> merge_defaults
         (PDict [(KStr ''id'', PInt 1), (KStr ''env'', PList [PList [PStr ''A'', PInt 1]])])
         (PDict [])
       = Inr [(KStr ''id'', PInt 1), (KStr ''env'', PDict [(KStr ''A'', PInt 1)])]"
  using merge_empty_defaults
      [of "[(KStr ''id'', PInt 1), (KStr ''env'', PDict [(KStr ''A'', PInt 1)])]"]
    merge_empty_defaults [of "[(KStr ''id'', PInt 1), (KStr ''env'', PNone)]"]
    merge_empty_defaults [of "[(KStr ''id'', PInt 1), (KStr ''env'', PInt 5)]"]
    merge_empty_defaults
      [of "[(KStr ''id'', PInt 1), (KStr ''env'', PList [PList [PStr ''A'', PInt 1]])]"]
  by (simp add: dget_def bindE_def py_or_def py_dict_def py_update_def)

text \<open>
  Claim C10. Whenever \<^verbatim>\<open>merge_defaults\<close> returns, the record it returns binds
  \<^verbatim>\<open>env\<close> to a dict. For two dicts whose \<^verbatim>\<open>env\<close> is absent, \<^verbatim>\<open>None\<close> or a dict it
  does return, and an \<^verbatim>\<open>env\<close> that is absent or \<^verbatim>\<open>None\<close> counts as the empty dict:
  the \<^verbatim>\<open>env\<close> of the result is the update of the one by the other.
\<close>

theorem merge_env_is_dict:
  "(merge_defaults st dflt = Inr m \<longrightarrow> (\<exists>e. dict_get (KStr ''env'') m = Some (PDict e)))
   \<and> ((dget s ''env'' PNone = PNone \<or> (\<exists>e. dget s ''env'' PNone = PDict e))
      \<and> (dget d ''env'' PNone = PNone \<or> (\<exists>e. dget d ''env'' PNone = PDict e))
      \<longrightarrow> (\<exists>m'. merge_defaults (PDict s) (PDict d) = Inr m'
                \<and> dict_get (KStr ''env'') m' =
                    Some (PDict (dict_update
                      (dict_update [] (case dget d ''env'' PNone of PDict e \<Rightarrow> e | _ \<Rightarrow> []))
                      (dict_update [] (case dget s ''env'' PNone of PDict e \<Rightarrow> e | _ \<Rightarrow> []))))))"
proof (intro conjI impI)
  assume "merge_defaults st dflt = Inr m"
  then show "\<exists>e. dict_get (KStr ''env'') m = Some (PDict e)"
    by (auto simp: merge_defaults_def bindE_def dict_get_dict_set split: sum.splits)
next
  assume a: "(dget s ''env'' PNone = PNone \<or> (\<exists>e. dget s ''env'' PNone = PDict e))
      \<and> (dget d ''env'' PNone = PNone \<or> (\<exists>e. dget d ''env'' PNone = PDict e))"
  have ok: "py_dict (py_or (dget x ''env'' (PDict [])) (PDict []))
              = Inr (dict_update [] (case dget x ''env'' PNone of PDict e \<Rightarrow> e | _ \<Rightarrow> []))"
    if "dget x ''env'' PNone = PNone \<or> (\<exists>e. dget x ''env'' PNone = PDict e)" for x
    using that by (auto simp: dget_def py_or_def split: option.splits)
  from a have "dget s ''env'' PNone = PNone \<or> (\<exists>e. dget s ''env'' PNone = PDict e)"
    and "dget d ''env'' PNone = PNone \<or> (\<exists>e. dget d ''env'' PNone = PDict e)" by simp_all
  then show "\<exists>m'. merge_defaults (PDict s) (PDict d) = Inr m'
                \<and> dict_get (KStr ''env'') m' =
                    Some (PDict (dict_update
                      (dict_update [] (case dget d ''env'' PNone of PDict e \<Rightarrow> e | _ \<Rightarrow> []))
                      (dict_update [] (case dget s ''env'' PNone of PDict e \<Rightarrow> e | _ \<Rightarrow> []))))"
    by (simp add: merge_defaults_dicts bindE_def dict_get_dict_set ok)
qed

theorem merge_env_is_dict_witness:
  "merge_defaults (PDict [(KStr ''id'', PInt 1)]) (PDict [(KStr ''repo'', PStr ''org/repo'')])
     = Inr [(KStr ''repo'', PStr ''org/repo''), (KStr ''id'', PInt 1), (KStr ''env'', PDict [])]
   \<and> dget [(KStr ''id'', PInt 1), (KStr ''env'', PNone)] ''env'' PNone = PNone
   \<and> dget [(KStr ''env'', PDict [(KStr ''A'', PInt 1)])] ''env'' PNone = PDict [(KStr ''A'', PInt 1)]
   \<and> merge_defaults (PDict [(KStr ''id'', PInt 1), (KStr ''env'', PNone)])
        (PDict [(KStr ''env'', PDict [(KStr ''A'', PInt 1)])])
     = Inr [(KStr ''env'', PDict [(KStr ''A'', PInt 1)]), (KStr ''id'', PInt 1)]"
  using merge_env_is_dict
    [of "PDict [(KStr ''id'', PInt 1)]" "PDict [(KStr ''repo'', PStr ''org/repo'')]"
        "[(KStr ''repo'', PStr ''org/repo''), (KStr ''id'', PInt 1), (KStr ''env'', PDict [])]"
        "[(KStr ''id'', PInt 1), (KStr ''env'', PNone)]"
        "[(KStr ''env'', PDict [(KStr ''A'', PInt 1)])]"]
  by (simp add: merge_defaults_dicts dget_def bindE_def py_or_def)

section \<open>Executor: dry runs\<close>

lemma spawned_append: "spawned (xs @ ys) = spawned xs @ spawned ys"
  by (induction xs rule: spawned.induct) simp_all

lemma run_cmd_dry:
  "run_cmd w argv True setup capture tr =
     (Inr \<lparr>returncode = 0, stdout = Some [], stderr = Some []\<rparr>,
      tr @ [Out (''+ '' @ join '' '' (map shlex_quote (build_justin_cmd argv setup)))])"
  by (simp add: run_cmd_def Let_def)

lemma create_stages_dry_spawned:
  "dry_run a \<Longrightarrow> spawned (snd (create_stages w a wfid d sts tr)) = spawned tr"
proof (induction sts arbitrary: tr)
  case Nil
  then show ?case by simp
next
  case (Cons st sts)
  show ?case
  proof (cases "stage_cmd (justin_global a) wfid d st")
    case (Inl e)
    then show ?thesis by simp
  next
    case (Inr p)
    obtain sid cmd where p: "p = (sid, cmd)" by (cases p)
    from Inr p Cons.prems Cons.IH [OF Cons.prems] show ?thesis
      by (simp add: run_cmd_dry spawned_append)
  qed
qed

lemma create_stages_dry_world:
  "dry_run a \<Longrightarrow> create_stages w a wfid d sts tr = create_stages w' a wfid d sts tr"
proof (induction sts arbitrary: tr)
  case Nil
  then show ?case by simp
next
  case (Cons st sts)
  show ?case
  proof (cases "stage_cmd (justin_global a) wfid d st")
    case (Inl e)
    then show ?thesis by simp
  next
    case (Inr p)
    obtain sid cmd where p: "p = (sid, cmd)" by (cases p)
    from Inr p Cons.prems Cons.IH [OF Cons.prems] show ?thesis
      by (simp add: run_cmd_dry)
  qed
qed

lemma submit_and_show_dry_spawned:
  "dry_run a \<Longrightarrow> spawned (snd (submit_and_show w a wfid tr)) = spawned tr"
  by (simp add: submit_and_show_def run_cmd_dry spawned_append Let_def)

lemma submit_and_show_dry_world:
  "dry_run a \<Longrightarrow> submit_and_show w a wfid tr = submit_and_show w' a wfid tr"
  by (simp add: submit_and_show_def run_cmd_dry Let_def)


lemma main_dry_spawned:
  assumes "dry_run a"
  shows "spawned (snd (main a cfg w)) = []"
proof (cases "prepare a cfg")
  case (Inl e)
  then show ?thesis by (simp add: main_def)
next
  case (Inr p)
  obtain defaults stages create_wf where p: "p = (defaults, stages, create_wf)"
    by (cases p)
  let ?tr = "[Out (''+ '' @ join '' '' (map shlex_quote (build_justin_cmd create_wf (with_dune_setup a)))),
              Out ''WFID=DRYRUN_WFID'']"
  obtain oc tr2 where cs: "create_stages w a ''DRYRUN_WFID'' defaults stages ?tr = (oc, tr2)"
    by (cases "create_stages w a ''DRYRUN_WFID'' defaults stages ?tr")
  have sp: "spawned tr2 = []"
    using create_stages_dry_spawned [OF assms, of w "''DRYRUN_WFID''" defaults stages ?tr] cs
    by simp
  show ?thesis
  proof (cases oc)
    case None
    with Inr p cs assms sp submit_and_show_dry_spawned [OF assms, of w "''DRYRUN_WFID''" tr2]
    show ?thesis by (simp add: main_def run_cmd_dry require_def)
  next
    case (Some o1)
    with Inr p cs assms sp show ?thesis by (simp add: main_def run_cmd_dry require_def)
  qed
qed

lemma main_dry_world:
  assumes "dry_run a"
  shows "main a cfg w = main a cfg w'"
proof (cases "prepare a cfg")
  case (Inl e)
  then show ?thesis by (simp add: main_def)
next
  case (Inr p)
  obtain defaults stages create_wf where p: "p = (defaults, stages, create_wf)"
    by (cases p)
  let ?tr = "[Out (''+ '' @ join '' '' (map shlex_quote (build_justin_cmd create_wf (with_dune_setup a)))),
              Out ''WFID=DRYRUN_WFID'']"
  obtain oc tr2 where cs: "create_stages w a ''DRYRUN_WFID'' defaults stages ?tr = (oc, tr2)"
    by (cases "create_stages w a ''DRYRUN_WFID'' defaults stages ?tr")
  then have cs': "create_stages w' a ''DRYRUN_WFID'' defaults stages ?tr = (oc, tr2)"
    using create_stages_dry_world [OF assms, of w "''DRYRUN_WFID''" defaults stages ?tr w'] by simp
  show ?thesis
  proof (cases oc)
    case None
    with Inr p cs cs' assms submit_and_show_dry_world [OF assms, of w "''DRYRUN_WFID''" tr2 w']
    show ?thesis by (simp add: main_def run_cmd_dry require_def)
  next
    case (Some o1)
    with Inr p cs cs' assms show ?thesis by (simp add: main_def run_cmd_dry require_def)
  qed
qed

text \<open>
  Claim C8. With \<^verbatim>\<open>dry_run\<close> set, \<^verbatim>\<open>run_cmd\<close> returns exit status 0 with empty
  captured standard output and standard error, the only event it adds is the echo of
  the command line, and it spawns no process. So a whole dry run of \<^verbatim>\<open>main\<close> spawns
  no process, and its outcome and its output are the same in every world.
\<close>

theorem dry_run_spawns_nothing:
  "run_cmd w argv True setup capture tr =
     (Inr \<lparr>returncode = 0, stdout = Some [], stderr = Some []\<rparr>,
      tr @ [Out (''+ '' @ join '' '' (map shlex_quote (build_justin_cmd argv setup)))])
   \<and> spawned (snd (run_cmd w argv True setup capture tr)) = spawned tr
   \<and> spawned (snd (main (a\<lparr>dry_run := True\<rparr>) cfg w)) = []
   \<and> main (a\<lparr>dry_run := True\<rparr>) cfg w = main (a\<lparr>dry_run := True\<rparr>) cfg w'"
  using main_dry_spawned [of "a\<lparr>dry_run := True\<rparr>" cfg w]
    main_dry_world [of "a\<lparr>dry_run := True\<rparr>" cfg w w']
  by (simp add: run_cmd_dry spawned_append)

section \<open>CommandBuilder: the software version\<close>

text \<open>
  Claim C2 says that a stage with no \<^verbatim>\<open>dunesw_version\<close> gets the two tokens
  \<^verbatim>\<open>--env\<close> and \<^verbatim>\<open>DUNESW_VERSION=v10_17_01d00\<close>. The command built for such a stage
  has neither token: after \<^verbatim>\<open>--jobscript-git\<close> and its value come 33 tokens of one
  character each.
\<close>

theorem dunesw_default_counterexample:
  "stage_cmd [''justin''] ''77'' (PDict []) gen_stage =
     Inr (''1'',
          [''justin'', ''create-stage'', ''--workflow-id'', ''77'', ''--stage-id'', ''1'',
           ''--jobscript-git'', ''org/repo/gen.jobscript:main'']
          @ map (\<lambda>c. [c]) ''--env DUNESW_VERSION=v10_17_01d00'')
   \<and> \<not> adjacent ''--env'' ''DUNESW_VERSION=v10_17_01d00''
         ([''justin'', ''create-stage'', ''--workflow-id'', ''77'', ''--stage-id'', ''1'',
           ''--jobscript-git'', ''org/repo/gen.jobscript:main'']
          @ map (\<lambda>c. [c]) ''--env DUNESW_VERSION=v10_17_01d00'')"
  by code_simp

text \<open>
  Claim C2, what the code does. When the merged record has no \<^verbatim>\<open>dunesw_version\<close>, or
  has \<^verbatim>\<open>None\<close> there, the software version section of the command is the string
  \<^verbatim>\<open>--env DUNESW_VERSION=v10_17_01d00\<close> cut into its 33 characters, so neither the
  token \<^verbatim>\<open>--env\<close> nor the token \<^verbatim>\<open>DUNESW_VERSION=v10_17_01d00\<close> is in it. When the
  record has a value \<open>v\<close> there, the section is the pair \<^verbatim>\<open>--env\<close>,
  \<^verbatim>\<open>DUNESW_VERSION=\<close>\<open>v\<close>, which is what the other branch was meant to give for the
  fixed tag.
\<close>

theorem dunesw_default_split_into_characters:
  "(dget m ''dunesw_version'' PNone = PNone \<longrightarrow>
      sec_dunesw m = map (\<lambda>c. [c]) ''--env DUNESW_VERSION=v10_17_01d00''
      \<and> length (sec_dunesw m) = 33
      \<and> ''--env'' \<notin> set (sec_dunesw m)
      \<and> ''DUNESW_VERSION=v10_17_01d00'' \<notin> set (sec_dunesw m)
      \<and> \<not> adjacent ''--env'' ''DUNESW_VERSION=v10_17_01d00'' (sec_dunesw m))
   \<and> (dict_get (KStr ''dunesw_version'') m = Some v \<and> v \<noteq> PNone \<longrightarrow>
      sec_dunesw m = [''--env'', ''DUNESW_VERSION='' @ as_str v])"
proof (intro conjI impI)
  assume a: "dict_get (KStr ''dunesw_version'') m = Some v \<and> v \<noteq> PNone"
  then show "sec_dunesw m = [''--env'', ''DUNESW_VERSION='' @ as_str v]"
    by (simp add: sec_dunesw_def)
next
  assume "dget m ''dunesw_version'' PNone = PNone"
  then have s: "sec_dunesw m = map (\<lambda>c. [c]) ''--env DUNESW_VERSION=v10_17_01d00''"
    by (auto simp: sec_dunesw_def dget_def list_extend_str_def split: option.splits)
  show "sec_dunesw m = map (\<lambda>c. [c]) ''--env DUNESW_VERSION=v10_17_01d00''" by (rule s)
  show "length (sec_dunesw m) = 33" unfolding s by simp
  show "''--env'' \<notin> set (sec_dunesw m)" unfolding s by simp
  show "''DUNESW_VERSION=v10_17_01d00'' \<notin> set (sec_dunesw m)" unfolding s by simp
  show "\<not> adjacent ''--env'' ''DUNESW_VERSION=v10_17_01d00'' (sec_dunesw m)" unfolding s by simp
qed

theorem dunesw_default_split_into_characters_witness:
  "dget [(KStr ''id'', PInt 1)] ''dunesw_version'' PNone = PNone
   \<and> sec_dunesw [(KStr ''id'', PInt 1)] = map (\<lambda>c. [c]) ''--env DUNESW_VERSION=v10_17_01d00''
   \<and> ''--env'' \<notin> set (sec_dunesw [(KStr ''id'', PInt 1)])
   \<and> sec_dunesw [(KStr ''dunesw_version'', PStr ''v10_17_01d00'')]
       = [''--env'', ''DUNESW_VERSION=v10_17_01d00'']"
  using dunesw_default_split_into_characters [of "[(KStr ''id'', PInt 1)]"]
    dunesw_default_split_into_characters
      [of "[(KStr ''dunesw_version'', PStr ''v10_17_01d00'')]" "PStr ''v10_17_01d00''"]
  by (simp add: dget_def as_str_def py_str_def)

section \<open>CommandBuilder: output patterns\<close>

lemma dict_get_set_KStr:
  "dict_get (KStr k) (dict_set (KStr k') q m) = (if k = k' then Some q else dict_get (KStr k) m)"
  by (simp add: dict_get_dict_set)

lemma dget_set_KStr:
  "dget (dict_set (KStr k') q m) k dflt = (if k = k' then q else dget m k dflt)"
  by (simp add: dget_def dict_get_set_KStr)

lemma sec_resources_set_output_pattern:
  "k = ''output_pattern'' \<or> k = ''output_patterns'' \<Longrightarrow>
   sec_resources (dict_set (KStr k) q m) = sec_resources m"
  by (erule disjE; simp add: sec_resources_def flag_if_present_def dget_set_KStr dict_get_set_KStr)

lemma sec_env_set_output_pattern:
  "k = ''output_pattern'' \<or> k = ''output_patterns'' \<Longrightarrow>
   sec_env sid (dict_set (KStr k) q m) = sec_env sid m"
  by (erule disjE; simp add: sec_env_def dget_set_KStr)

lemma sec_dunesw_set_output_pattern:
  "k = ''output_pattern'' \<or> k = ''output_patterns'' \<Longrightarrow>
   sec_dunesw (dict_set (KStr k) q m) = sec_dunesw m"
  by (erule disjE; simp add: sec_dunesw_def dict_get_set_KStr)

lemma sec_fhicl_next_set_output_pattern:
  "k = ''output_pattern'' \<or> k = ''output_patterns'' \<Longrightarrow>
   sec_fhicl_next (dict_set (KStr k) q m) = sec_fhicl_next m"
  by (erule disjE; simp add: sec_fhicl_next_def flag_if_not_none_def dict_get_set_KStr)

lemma sec_rse_lifetime_set_output_pattern:
  "k = ''output_pattern'' \<or> k = ''output_patterns'' \<Longrightarrow>
   sec_rse_lifetime (dict_set (KStr k) q m) = sec_rse_lifetime m"
  by (erule disjE; simp add: sec_rse_lifetime_def flag_if_not_none_def flag_if_truthy_def
      dict_get_set_KStr dget_set_KStr)

lemma sec_sites_set_output_pattern:
  "k = ''output_pattern'' \<or> k = ''output_patterns'' \<Longrightarrow>
   sec_sites sid (dict_set (KStr k) q m) = sec_sites sid m"
  by (erule disjE; simp add: sec_sites_def dget_set_KStr)

lemma sec_classad_set_output_pattern:
  "k = ''output_pattern'' \<or> k = ''output_patterns'' \<Longrightarrow>
   sec_classad (dict_set (KStr k) q m) = sec_classad m"
  by (erule disjE; simp add: sec_classad_def dget_set_KStr)

lemma cmd_head_set_output_pattern:
  "k = ''output_pattern'' \<or> k = ''output_patterns'' \<Longrightarrow>
   cmd_head jg wfid d (dict_set (KStr k) q m) = cmd_head jg wfid d m"
  by (erule disjE; simp add: cmd_head_def dict_get_set_KStr dget_set_KStr flag_if_not_none_def
      sec_resources_set_output_pattern sec_env_set_output_pattern
      sec_dunesw_set_output_pattern sec_fhicl_next_set_output_pattern)

lemma cmd_tail_set_output_pattern:
  "k = ''output_pattern'' \<or> k = ''output_patterns'' \<Longrightarrow>
   cmd_tail sid (dict_set (KStr k) q m) = cmd_tail sid m"
  by (erule disjE; simp add: cmd_tail_def sec_rse_lifetime_set_output_pattern
      sec_sites_set_output_pattern sec_classad_set_output_pattern)

lemma sec_output_patterns_list:
  assumes "dict_get (KStr ''output_patterns'') m = Some (PList ops)" and "ops \<noteq> []"
  shows "sec_output_patterns sid m
           = Inr (concat (map (\<lambda>pat. [''--output-pattern'', as_str pat]) ops))"
  using assms by (simp add: sec_output_patterns_def dget_def)

text \<open>
  Claim C7. When the merged record has a non-empty list as \<^verbatim>\<open>output_patterns\<close>, the
  output pattern section of the command is one pair \<^verbatim>\<open>--output-pattern\<close>, pattern for
  each element of the list, in the order of the list, and nothing else; the command is
  the flags before that section, the section, and the flags after it. Nothing in the
  command comes from the singular \<^verbatim>\<open>output_pattern\<close>: whatever value that field is
  given, the command is the same. The flags before and after the section depend on
  neither of the two fields.
\<close>

theorem output_patterns_take_precedence:
  assumes "dict_get (KStr ''output_patterns'') m = Some (PList ops)" and "ops \<noteq> []"
  shows "sec_output_patterns sid m
           = Inr (concat (map (\<lambda>pat. [''--output-pattern'', as_str pat]) ops))
         \<and> build_create_stage jg wfid d m =
             bindE (cmd_head jg wfid d m) (\<lambda>hd.
             bindE (cmd_tail (fst hd) m) (\<lambda>tl.
             Inr (fst hd,
                  snd hd @ concat (map (\<lambda>pat. [''--output-pattern'', as_str pat]) ops) @ tl)))
         \<and> (\<forall>q. build_create_stage jg wfid d (dict_set (KStr ''output_pattern'') q m)
                  = build_create_stage jg wfid d m)
         \<and> (\<forall>q q'. cmd_head jg wfid d
                       (dict_set (KStr ''output_patterns'') q
                          (dict_set (KStr ''output_pattern'') q' m))
                      = cmd_head jg wfid d m
                    \<and> cmd_tail sid
                       (dict_set (KStr ''output_patterns'') q
                          (dict_set (KStr ''output_pattern'') q' m))
                      = cmd_tail sid m)"
proof (intro conjI allI)
  show "sec_output_patterns sid m
          = Inr (concat (map (\<lambda>pat. [''--output-pattern'', as_str pat]) ops))"
    using assms by (rule sec_output_patterns_list)
  show "build_create_stage jg wfid d m =
          bindE (cmd_head jg wfid d m) (\<lambda>hd.
          bindE (cmd_tail (fst hd) m) (\<lambda>tl.
          Inr (fst hd,
               snd hd @ concat (map (\<lambda>pat. [''--output-pattern'', as_str pat]) ops) @ tl)))"
    by (simp add: build_create_stage_def sec_output_patterns_list [OF assms] bindE_def)
next
  fix q
  have "dict_get (KStr ''output_patterns'') (dict_set (KStr ''output_pattern'') q m)
          = Some (PList ops)"
    using assms(1) by (simp add: dict_get_set_KStr)
  then have "sec_output_patterns sid' (dict_set (KStr ''output_pattern'') q m)
          = sec_output_patterns sid' m" for sid'
    using assms by (simp add: sec_output_patterns_list)
  then show "build_create_stage jg wfid d (dict_set (KStr ''output_pattern'') q m)
          = build_create_stage jg wfid d m"
    by (simp add: build_create_stage_def cmd_head_set_output_pattern
        cmd_tail_set_output_pattern)
next
  fix q q'
  show "cmd_head jg wfid d
          (dict_set (KStr ''output_patterns'') q (dict_set (KStr ''output_pattern'') q' m))
        = cmd_head jg wfid d m"
    by (simp add: cmd_head_set_output_pattern)
  show "cmd_tail sid
          (dict_set (KStr ''output_patterns'') q (dict_set (KStr ''output_pattern'') q' m))
        = cmd_tail sid m"
    by (simp add: cmd_tail_set_output_pattern)
qed

theorem output_patterns_take_precedence_witness:
  "dict_get (KStr ''output_patterns'')
      [(KStr ''id'', PInt 1), (KStr ''repo'', PStr ''org/repo''), (KStr ''ref'', PStr ''main''),
       (KStr ''jobscript'', PStr ''gen.jobscript''), (KStr ''dunesw_version'', PStr ''v10''),
       (KStr ''output_patterns'', PList [PStr ''*.root'', PStr ''*.hist'']),
       (KStr ''output_pattern'', PStr ''*.txt''), (KStr ''env'', PDict [])]
     = Some (PList [PStr ''*.root'', PStr ''*.hist''])
   \<and> build_create_stage [''justin''] ''77'' (PDict [])
      [(KStr ''id'', PInt 1), (KStr ''repo'', PStr ''org/repo''), (KStr ''ref'', PStr ''main''),
       (KStr ''jobscript'', PStr ''gen.jobscript''), (KStr ''dunesw_version'', PStr ''v10''),
       (KStr ''output_patterns'', PList [PStr ''*.root'', PStr ''*.hist'']),
       (KStr ''output_pattern'', PStr ''*.txt''), (KStr ''env'', PDict [])]
     = Inr (''1'',
            [''justin'', ''create-stage'', ''--workflow-id'', ''77'', ''--stage-id'', ''1'',
             ''--jobscript-git'', ''org/repo/gen.jobscript:main'',
             ''--env'', ''DUNESW_VERSION=v10'',
             ''--output-pattern'', ''*.root'', ''--output-pattern'', ''*.hist''])"
  using output_patterns_take_precedence
    [of "[(KStr ''id'', PInt 1), (KStr ''repo'', PStr ''org/repo''), (KStr ''ref'', PStr ''main''),
          (KStr ''jobscript'', PStr ''gen.jobscript''), (KStr ''dunesw_version'', PStr ''v10''),
          (KStr ''output_patterns'', PList [PStr ''*.root'', PStr ''*.hist'']),
          (KStr ''output_pattern'', PStr ''*.txt''), (KStr ''env'', PDict [])]"
        "[PStr ''*.root'', PStr ''*.hist'']" "''1''" "[''justin'']" "''77''" "PDict []"]
  by (simp add: Let_def bindE_def cmd_head_def cmd_tail_def require_def dget_def as_str_def py_str_def
      string_of_int_def digit_char_def sec_env_def py_or_def sec_resources_def
      flag_if_present_def flag_if_not_none_def flag_if_truthy_def sec_dunesw_def
      sec_fhicl_next_def sec_rse_lifetime_def sec_sites_def sec_classad_def)

section \<open>OrchestrationEngine: the trace of a run\<close>

lemma run_cmd_snd:
  "snd (run_cmd w argv dry setup capture tr) =
     tr @ Out (''+ '' @ join '' '' (map shlex_quote (build_justin_cmd argv setup)))
          # (if dry then [] else [Spawn (build_justin_cmd argv setup)])"
  by (simp add: run_cmd_def Let_def split: option.split prod.split)


lemma run_cmd_nonzero_real:
  assumes "run_cmd w argv dry setup capture tr = (Inr cp, tr1)" and "returncode cp \<noteq> 0"
  shows "\<not> dry"
  using assms by (auto simp: run_cmd_dry)

lemma report_failure_spawned [simp]: "spawned (report_failure msg cp tr) = spawned tr"
  by (simp add: report_failure_def spawned_append split: option.split)

lemma create_stages_step:
  assumes "stage_cmd (justin_global a) wfid d st = Inr (sid, cmd)"
  shows "create_stages w a wfid d (st # rest) tr =
     (case fst (run_cmd w cmd (dry_run a) (with_dune_setup a) True tr) of
        Inl e \<Rightarrow> (Some (Uncaught e), snd (run_cmd w cmd (dry_run a) (with_dune_setup a) True tr))
      | Inr cp \<Rightarrow>
          if returncode cp \<noteq> 0 then
            (Some (SysExit 3),
             report_failure (''ERROR: create-stage failed for stage '' @ sid @ ''.'') cp
               (snd (run_cmd w cmd (dry_run a) (with_dune_setup a) True tr)))
          else create_stages w a wfid d rest
                 (snd (run_cmd w cmd (dry_run a) (with_dune_setup a) True tr)))"
  using assms by (simp split: prod.split sum.split)

lemma create_stages_raise:
  assumes "stage_cmd (justin_global a) wfid d st = Inl e"
  shows "create_stages w a wfid d (st # rest) tr = (Some (Uncaught e), tr)"
  using assms by simp

lemma create_stages_append:
  "create_stages w a wfid d (pre @ rest) tr =
     (case create_stages w a wfid d pre tr of
        (None, tr') \<Rightarrow> create_stages w a wfid d rest tr'
      | (Some oc, tr') \<Rightarrow> (Some oc, tr'))"
proof (induction pre arbitrary: tr)
  case Nil
  then show ?case by simp
next
  case (Cons st pre)
  show ?case
  proof (cases "stage_cmd (justin_global a) wfid d st")
    case (Inl e)
    then show ?thesis by simp
  next
    case (Inr p)
    obtain sid cmd where p: "p = (sid, cmd)" by (cases p)
    let ?r = "run_cmd w cmd (dry_run a) (with_dune_setup a) True tr"
    from Inr p have sc: "stage_cmd (justin_global a) wfid d st = Inr (sid, cmd)" by simp
    show ?thesis
    proof (cases "fst ?r")
      case (Inl e)
      then show ?thesis
        by (simp only: append_Cons create_stages_step [OF sc]) simp
    next
      case (Inr cp)
      then show ?thesis
        by (simp only: append_Cons create_stages_step [OF sc]) (simp add: Cons.IH)
    qed
  qed
qed

lemma create_stages_spawn_bound:
  "length (spawned (snd (create_stages w a wfid d sts tr))) \<le> length (spawned tr) + length sts"
proof (induction sts arbitrary: tr)
  case Nil
  then show ?case by simp
next
  case (Cons st sts)
  show ?case
  proof (cases "stage_cmd (justin_global a) wfid d st")
    case (Inl e)
    then show ?thesis by simp
  next
    case (Inr p)
    obtain sid cmd where p: "p = (sid, cmd)" by (cases p)
    let ?r = "run_cmd w cmd (dry_run a) (with_dune_setup a) True tr"
    from Inr p have sc: "stage_cmd (justin_global a) wfid d st = Inr (sid, cmd)" by simp
    have one: "length (spawned (snd ?r)) \<le> length (spawned tr) + 1"
      by (simp add: run_cmd_snd spawned_append)
    show ?thesis
    proof (cases "fst ?r")
      case (Inl e)
      with one show ?thesis by (simp only: create_stages_step [OF sc]) simp
    next
      case (Inr cp)
      show ?thesis
      proof (cases "returncode cp = 0")
        case True
        have "length (spawned (snd (create_stages w a wfid d sts (snd ?r))))
                \<le> length (spawned (snd ?r)) + length sts" by (rule Cons.IH)
        with one Inr True show ?thesis by (simp only: create_stages_step [OF sc]) simp
      next
        case False
        with one Inr show ?thesis by (simp only: create_stages_step [OF sc]) simp
      qed
    qed
  qed
qed

lemma create_stages_extends:
  "\<exists>ext. snd (create_stages w a wfid d sts tr) = tr @ ext"
proof (induction sts arbitrary: tr)
  case Nil
  then show ?case by simp
next
  case (Cons st sts)
  show ?case
  proof (cases "stage_cmd (justin_global a) wfid d st")
    case (Inl e)
    then show ?thesis by simp
  next
    case (Inr p)
    obtain sid cmd where p: "p = (sid, cmd)" by (cases p)
    let ?r = "run_cmd w cmd (dry_run a) (with_dune_setup a) True tr"
    from Inr p have sc: "stage_cmd (justin_global a) wfid d st = Inr (sid, cmd)" by simp
    obtain e1 where one: "snd ?r = tr @ e1" by (simp add: run_cmd_snd)
    show ?thesis
    proof (cases "fst ?r")
      case (Inl e)
      with one show ?thesis by (simp only: create_stages_step [OF sc]) simp
    next
      case (Inr cp)
      show ?thesis
      proof (cases "returncode cp = 0")
        case True
        obtain e2 where "snd (create_stages w a wfid d sts (snd ?r)) = snd ?r @ e2"
          using Cons.IH by blast
        with one Inr True show ?thesis by (simp only: create_stages_step [OF sc]) simp
      next
        case False
        with one Inr show ?thesis
          by (simp only: create_stages_step [OF sc]) (simp add: report_failure_def)
      qed
    qed
  qed
qed

lemma create_stages_outcome:
  "create_stages w a wfid d sts tr = (Some oc, tr') \<Longrightarrow> oc = SysExit 3 \<or> (\<exists>e. oc = Uncaught e)"
proof (induction sts arbitrary: tr)
  case Nil
  then show ?case by simp
next
  case (Cons st sts)
  show ?case
  proof (cases "stage_cmd (justin_global a) wfid d st")
    case (Inl e)
    with Cons.prems show ?thesis by auto
  next
    case (Inr p)
    obtain sid cmd where p: "p = (sid, cmd)" by (cases p)
    let ?r = "run_cmd w cmd (dry_run a) (with_dune_setup a) True tr"
    from Inr p have sc: "stage_cmd (justin_global a) wfid d st = Inr (sid, cmd)" by simp
    show ?thesis
    proof (cases "fst ?r")
      case (Inl e)
      with Cons.prems show ?thesis by (simp only: create_stages_step [OF sc]) auto
    next
      case (Inr cp)
      show ?thesis
      proof (cases "returncode cp = 0")
        case True
        with Inr Cons.prems
        have "create_stages w a wfid d sts (snd ?r) = (Some oc, tr')"
          by (simp only: create_stages_step [OF sc]) simp
        then show ?thesis by (rule Cons.IH)
      next
        case False
        with Inr Cons.prems show ?thesis by (simp only: create_stages_step [OF sc]) auto
      qed
    qed
  qed
qed

lemma create_stages_all_spawned:
  "create_stages w a wfid d sts tr = (None, tr') \<Longrightarrow> \<not> dry_run a \<Longrightarrow>
   length (spawned tr') = length (spawned tr) + length sts"
proof (induction sts arbitrary: tr)
  case Nil
  then show ?case by simp
next
  case (Cons st sts)
  show ?case
  proof (cases "stage_cmd (justin_global a) wfid d st")
    case (Inl e)
    with Cons.prems show ?thesis by simp
  next
    case (Inr p)
    obtain sid cmd where p: "p = (sid, cmd)" by (cases p)
    let ?r = "run_cmd w cmd (dry_run a) (with_dune_setup a) True tr"
    from Inr p have sc: "stage_cmd (justin_global a) wfid d st = Inr (sid, cmd)" by simp
    have one: "length (spawned (snd ?r)) = length (spawned tr) + 1"
      using Cons.prems(2) by (simp add: run_cmd_snd spawned_append)
    show ?thesis
    proof (cases "fst ?r")
      case (Inl e)
      with Cons.prems show ?thesis by (simp only: create_stages_step [OF sc]) simp
    next
      case (Inr cp)
      show ?thesis
      proof (cases "returncode cp = 0")
        case True
        with Inr Cons.prems
        have "create_stages w a wfid d sts (snd ?r) = (None, tr')"
          by (simp only: create_stages_step [OF sc]) simp
        from Cons.IH [OF this Cons.prems(2)] one show ?thesis by simp
      next
        case False
        with Inr Cons.prems show ?thesis by (simp only: create_stages_step [OF sc]) simp
      qed
    qed
  qed
qed

lemma main_after_create_workflow:
  assumes "prepare a cfg = Inr (defaults, stages, create_wf)"
    and "run_cmd w create_wf (dry_run a) (with_dune_setup a) True [] = (Inr cp, tr1)"
    and "returncode cp = 0"
    and "wfid = (if \<not> dry_run a then strip (case stdout cp of None \<Rightarrow> [] | Some s \<Rightarrow> s)
                 else ''DRYRUN_WFID'')"
    and "wfid \<noteq> []"
  shows "main a cfg w =
           (case create_stages w a wfid defaults stages (tr1 @ [Out (''WFID='' @ wfid)]) of
              (Some oc, tr2) \<Rightarrow> (oc, tr2)
            | (None, tr2) \<Rightarrow> submit_and_show w a wfid tr2)"
  using assms(1,2,3,5) unfolding assms(4) by (simp add: main_def require_def Let_def)

section \<open>OrchestrationEngine: a stage that fails\<close>

text \<open>
  Claim C4. Take a run that has created the workflow and has got an id for it, in
  which the create-stage calls of the entries \<open>pre\<close> have all succeeded, and in which
  the create-stage call of the next entry \<open>st\<close> returns an exit status that is not 0;
  \<open>rest\<close> are the entries declared after it. Then the run ends with
  \<^verbatim>\<open>sys.exit(3)\<close>. What it still does after that call is to print on standard error
  the message that names the id of the failing stage, and the standard error of the
  call when that is not empty. The calls of \<^verbatim>\<open>subprocess.run\<close> of the whole run are
  those made up to this point and the failing call, which is the last one: none for an
  entry of \<open>rest\<close>, no submit-workflow and no show-stages. They are
  \<open>2 + length pre\<close> many: create-workflow, one for each entry of \<open>pre\<close>, and the failing
  one.
\<close>

theorem create_stage_failure_stops_run:
  assumes prep: "prepare a cfg = Inr (defaults, pre @ st # rest, create_wf)"
    and cw: "run_cmd w create_wf (dry_run a) (with_dune_setup a) True [] = (Inr cp, tr1)"
    and rc0: "returncode cp = 0"
    and wfid: "wfid = (if \<not> dry_run a
                       then strip (case stdout cp of None \<Rightarrow> [] | Some s \<Rightarrow> s)
                       else ''DRYRUN_WFID'')"
    and ne: "wfid \<noteq> []"
    and before: "create_stages w a wfid defaults pre (tr1 @ [Out (''WFID='' @ wfid)]) = (None, tr2)"
    and sc: "stage_cmd (justin_global a) wfid defaults st = Inr (stage_id, cmd)"
    and fail: "run_cmd w cmd (dry_run a) (with_dune_setup a) True tr2 = (Inr cp', tr3)"
    and nz: "returncode cp' \<noteq> 0"
  shows "main a cfg w =
           (SysExit 3,
            tr2 @ [Out (''+ '' @ join '' '' (map shlex_quote (build_justin_cmd cmd (with_dune_setup a)))),
                   Spawn (build_justin_cmd cmd (with_dune_setup a)),
                   Err (''ERROR: create-stage failed for stage '' @ stage_id @ ''.'')]
                @ (case stderr cp' of None \<Rightarrow> [] | Some e \<Rightarrow> if e \<noteq> [] then [Err e] else []))
         \<and> exit_status (fst (main a cfg w)) = 3
         \<and> spawned (snd (main a cfg w))
             = spawned tr2 @ [build_justin_cmd cmd (with_dune_setup a)]
         \<and> length (spawned (snd (main a cfg w))) = 2 + length pre"
proof -
  from fail nz have real: "\<not> dry_run a" by (rule run_cmd_nonzero_real)
  have tr3: "tr3 = tr2 @ [Out (''+ '' @ join '' '' (map shlex_quote (build_justin_cmd cmd (with_dune_setup a)))),
                          Spawn (build_justin_cmd cmd (with_dune_setup a))]"
    using run_cmd_snd [of w cmd "dry_run a" "with_dune_setup a" True tr2] fail real by simp
  have stage: "create_stages w a wfid defaults (st # rest) tr2 =
                 (Some (SysExit 3),
                  report_failure (''ERROR: create-stage failed for stage '' @ stage_id @ ''.'') cp' tr3)"
    using fail nz by (simp only: create_stages_step [OF sc]) simp
  have loop: "create_stages w a wfid defaults (pre @ st # rest) (tr1 @ [Out (''WFID='' @ wfid)]) =
                 (Some (SysExit 3),
                  report_failure (''ERROR: create-stage failed for stage '' @ stage_id @ ''.'') cp' tr3)"
    unfolding create_stages_append before prod.case option.case by (rule stage)
  have m: "main a cfg w =
             (SysExit 3,
              report_failure (''ERROR: create-stage failed for stage '' @ stage_id @ ''.'') cp' tr3)"
    unfolding main_after_create_workflow [OF prep cw rc0 wfid ne] loop prod.case option.case
    by (rule refl)
  have tr1: "tr1 = [Out (''+ '' @ join '' '' (map shlex_quote (build_justin_cmd create_wf (with_dune_setup a)))),
                    Spawn (build_justin_cmd create_wf (with_dune_setup a))]"
    using run_cmd_snd [of w create_wf "dry_run a" "with_dune_setup a" True "[]"] cw real by simp
  have n: "length (spawned tr2) = 1 + length pre"
    using create_stages_all_spawned [OF before real] by (simp add: tr1 spawned_append)
  show ?thesis
    using n by (simp add: m tr3 report_failure_def spawned_append split: option.split)
qed

lemma fail2_prepare:
  "prepare plain_args cfg_three =
     Inr (three_defaults, [PDict [(KStr ''id'', PInt 1), (KStr ''jobscript'', PStr ''a.jobscript'')]] @ PDict [(KStr ''id'', PInt 2), (KStr ''jobscript'', PStr ''b.jobscript'')] # [PDict [(KStr ''id'', PInt 3), (KStr ''jobscript'', PStr ''c.jobscript'')]],
          [''justin'', ''create-workflow'', ''--description'', ''gen'', ''--monte-carlo'', ''5''])"
  by code_simp

lemma fail2_create_workflow:
  "run_cmd world_fail2 [''justin'', ''create-workflow'', ''--description'', ''gen'', ''--monte-carlo'', ''5'']
     (dry_run plain_args) (with_dune_setup plain_args) True []
   = (Inr \<lparr>returncode = 0, stdout = Some (''77'' @ [CHR 0x0A]), stderr = Some []\<rparr>,
      [Out ''+ justin create-workflow --description gen --monte-carlo 5'',
      Spawn [''justin'', ''create-workflow'', ''--description'', ''gen'', ''--monte-carlo'', ''5'']])"
  by code_simp

lemma fail2_wfid:
  "''77'' = (if \<not> dry_run plain_args
             then strip (case stdout \<lparr>returncode = 0, stdout = Some (''77'' @ [CHR 0x0A]), stderr = Some []\<rparr> of
                           None \<Rightarrow> [] | Some s \<Rightarrow> s)
             else ''DRYRUN_WFID'')"
  by code_simp

lemma fail2_before:
  "create_stages world_fail2 plain_args ''77'' three_defaults [PDict [(KStr ''id'', PInt 1), (KStr ''jobscript'', PStr ''a.jobscript'')]]
     ([Out ''+ justin create-workflow --description gen --monte-carlo 5'',
      Spawn [''justin'', ''create-workflow'', ''--description'', ''gen'', ''--monte-carlo'', ''5'']] @ [Out (''WFID='' @ ''77'')])
   = (None,
      [Out ''+ justin create-workflow --description gen --monte-carlo 5'',
      Spawn [''justin'', ''create-workflow'', ''--description'', ''gen'', ''--monte-carlo'', ''5''],
      Out ''WFID=77'',
      Out ''+ justin create-stage --workflow-id 77 --stage-id 1 --jobscript-git org/repo/a.jobscript:main --env DUNESW_VERSION=v10'',
      Spawn [''justin'', ''create-stage'', ''--workflow-id'', ''77'', ''--stage-id'', ''1'',
        ''--jobscript-git'', ''org/repo/a.jobscript:main'', ''--env'', ''DUNESW_VERSION=v10'']])"
  by code_simp

lemma fail2_stage_cmd:
  "stage_cmd (justin_global plain_args) ''77'' three_defaults (PDict [(KStr ''id'', PInt 2), (KStr ''jobscript'', PStr ''b.jobscript'')])
   = Inr (''2'', [''justin'', ''create-stage'', ''--workflow-id'', ''77'', ''--stage-id'', ''2'',
        ''--jobscript-git'', ''org/repo/b.jobscript:main'', ''--env'', ''DUNESW_VERSION=v10''])"
  by code_simp

lemma fail2_failing_call:
  "run_cmd world_fail2 [''justin'', ''create-stage'', ''--workflow-id'', ''77'', ''--stage-id'', ''2'',
        ''--jobscript-git'', ''org/repo/b.jobscript:main'', ''--env'', ''DUNESW_VERSION=v10'']
     (dry_run plain_args) (with_dune_setup plain_args) True
     [Out ''+ justin create-workflow --description gen --monte-carlo 5'',
      Spawn [''justin'', ''create-workflow'', ''--description'', ''gen'', ''--monte-carlo'', ''5''],
      Out ''WFID=77'',
      Out ''+ justin create-stage --workflow-id 77 --stage-id 1 --jobscript-git org/repo/a.jobscript:main --env DUNESW_VERSION=v10'',
      Spawn [''justin'', ''create-stage'', ''--workflow-id'', ''77'', ''--stage-id'', ''1'',
        ''--jobscript-git'', ''org/repo/a.jobscript:main'', ''--env'', ''DUNESW_VERSION=v10'']]
   = (Inr \<lparr>returncode = 1, stdout = Some [], stderr = Some ''boom''\<rparr>,
      [Out ''+ justin create-workflow --description gen --monte-carlo 5'',
      Spawn [''justin'', ''create-workflow'', ''--description'', ''gen'', ''--monte-carlo'', ''5''],
      Out ''WFID=77'',
      Out ''+ justin create-stage --workflow-id 77 --stage-id 1 --jobscript-git org/repo/a.jobscript:main --env DUNESW_VERSION=v10'',
      Spawn [''justin'', ''create-stage'', ''--workflow-id'', ''77'', ''--stage-id'', ''1'',
        ''--jobscript-git'', ''org/repo/a.jobscript:main'', ''--env'', ''DUNESW_VERSION=v10''],
      Out ''+ justin create-stage --workflow-id 77 --stage-id 2 --jobscript-git org/repo/b.jobscript:main --env DUNESW_VERSION=v10'',
      Spawn [''justin'', ''create-stage'', ''--workflow-id'', ''77'', ''--stage-id'', ''2'',
        ''--jobscript-git'', ''org/repo/b.jobscript:main'', ''--env'', ''DUNESW_VERSION=v10'']])"
  by code_simp

theorem create_stage_failure_stops_run_witness:
  "main plain_args cfg_three world_fail2 =
     (SysExit 3,
      [Out ''+ justin create-workflow --description gen --monte-carlo 5'',
      Spawn [''justin'', ''create-workflow'', ''--description'', ''gen'', ''--monte-carlo'', ''5''],
      Out ''WFID=77'',
      Out ''+ justin create-stage --workflow-id 77 --stage-id 1 --jobscript-git org/repo/a.jobscript:main --env DUNESW_VERSION=v10'',
      Spawn [''justin'', ''create-stage'', ''--workflow-id'', ''77'', ''--stage-id'', ''1'',
        ''--jobscript-git'', ''org/repo/a.jobscript:main'', ''--env'', ''DUNESW_VERSION=v10''],
      Out ''+ justin create-stage --workflow-id 77 --stage-id 2 --jobscript-git org/repo/b.jobscript:main --env DUNESW_VERSION=v10'',
      Spawn [''justin'', ''create-stage'', ''--workflow-id'', ''77'', ''--stage-id'', ''2'',
        ''--jobscript-git'', ''org/repo/b.jobscript:main'', ''--env'', ''DUNESW_VERSION=v10''],
      Err ''ERROR: create-stage failed for stage 2.'', Err ''boom''])
   \<and> exit_status (fst (main plain_args cfg_three world_fail2)) = 3
   \<and> length (spawned (snd (main plain_args cfg_three world_fail2))) = 3"
  using create_stage_failure_stops_run
    [OF fail2_prepare fail2_create_workflow _ fail2_wfid _ fail2_before fail2_stage_cmd
        fail2_failing_call]
  by (simp add: build_justin_cmd_def plain_args_def shlex_quote_def safe_char_def)

section \<open>OrchestrationEngine: a workflow id that cannot be read\<close>





section \<open>OrchestrationEngine: a stage entry that is not valid\<close>

lemma stage_cmd_invalid:
  assumes "\<not> isinstance_dict bad \<or> py_in ''id'' bad = Inr False"
  shows "stage_cmd jg wfid d bad =
           Inl (ValueError (if \<not> isinstance_dict bad
                            then ''Each stage entry must be a mapping/dict.''
                            else ''Each stage needs an '' @ [CHR 0x27] @ ''id'' @ [CHR 0x27] @ ''.''))"
  using assms by (auto simp: stage_cmd_def require_def bindE_def)

lemma create_stages_invalid:
  assumes "stage_cmd (justin_global a) wfid d bad = Inl e"
  shows "\<exists>oc ext. create_stages w a wfid d (pre @ bad # post) tr = (Some oc, tr @ ext)
           \<and> (oc = SysExit 3 \<or> (\<exists>e'. oc = Uncaught e'))
           \<and> length (spawned ext) \<le> length pre"
proof -
  obtain x tr' where c: "create_stages w a wfid d pre tr = (x, tr')"
    by (cases "create_stages w a wfid d pre tr")
  obtain ext where ext: "tr' = tr @ ext"
    using create_stages_extends [of w a wfid d pre tr] c by auto
  have "length (spawned tr') \<le> length (spawned tr) + length pre"
    using create_stages_spawn_bound [of w a wfid d pre tr] c by simp
  then have len: "length (spawned ext) \<le> length pre" by (simp add: ext spawned_append)
  show ?thesis
  proof (cases x)
    case None
    with c assms have "create_stages w a wfid d (pre @ bad # post) tr = (Some (Uncaught e), tr')"
      by (simp add: create_stages_append)
    with ext len show ?thesis by auto
  next
    case (Some oc)
    with c have r: "create_stages w a wfid d (pre @ bad # post) tr = (Some oc, tr')"
      by (simp add: create_stages_append)
    from c Some have "oc = SysExit 3 \<or> (\<exists>e'. oc = Uncaught e')"
      using create_stages_outcome [of w a wfid d pre tr oc tr'] by simp
    with r ext len show ?thesis by auto
  qed
qed

lemma main_invalid_entry:
  assumes prep: "prepare a cfg = Inr (defaults, pre @ bad # post, create_wf)"
    and bad: "\<not> isinstance_dict bad \<or> py_in ''id'' bad = Inr False"
  shows "\<exists>oc ext. main a cfg w
             = (oc, snd (run_cmd w create_wf (dry_run a) (with_dune_setup a) True []) @ ext)
           \<and> (oc = SysExit 2 \<or> oc = SysExit 3 \<or> (\<exists>e. oc = Uncaught e))
           \<and> length (spawned ext) \<le> length pre"
proof -
  obtain r tr1 where run: "run_cmd w create_wf (dry_run a) (with_dune_setup a) True [] = (r, tr1)"
    by (cases "run_cmd w create_wf (dry_run a) (with_dune_setup a) True []")
  show ?thesis
  proof (cases r)
    case (Inl e)
    with prep run have "main a cfg w = (Uncaught e, tr1 @ [])" by (simp add: main_def)
    with run show ?thesis by force
  next
    case (Inr cp)
    show ?thesis
    proof (cases "returncode cp = 0")
      case False
      with prep run Inr have "main a cfg w =
          (SysExit 2, tr1 @ [Err ''ERROR: create-workflow failed.'']
              @ (case stderr cp of None \<Rightarrow> [] | Some e \<Rightarrow> if e \<noteq> [] then [Err e] else []))"
        by (simp add: main_def report_failure_def)
      moreover have "length (spawned ([Err ''ERROR: create-workflow failed.'']
              @ (case stderr cp of None \<Rightarrow> [] | Some e \<Rightarrow> if e \<noteq> [] then [Err e] else [])))
            \<le> length pre"
        by (simp split: option.split)
      ultimately show ?thesis using run by force
    next
      case True
      define wfid where "wfid = (if \<not> dry_run a
                       then strip (case stdout cp of None \<Rightarrow> [] | Some s \<Rightarrow> s)
                       else ''DRYRUN_WFID'')"
      show ?thesis
      proof (cases "wfid = []")
        case True
        with prep run Inr \<open>returncode cp = 0\<close> have "main a cfg w =
            (Uncaught (ValueError ''Could not parse workflow id from create-workflow output.''),
             tr1 @ [])"
          by (simp add: main_def require_def wfid_def Let_def)
        with run show ?thesis by force
      next
        case False
        from run Inr have run': "run_cmd w create_wf (dry_run a) (with_dune_setup a) True [] = (Inr cp, tr1)"
          by simp
        have sc: "stage_cmd (justin_global a) wfid defaults bad =
                    Inl (ValueError (if \<not> isinstance_dict bad
                            then ''Each stage entry must be a mapping/dict.''
                            else ''Each stage needs an '' @ [CHR 0x27] @ ''id'' @ [CHR 0x27] @ ''.''))"
          using bad by (rule stage_cmd_invalid)
        obtain oc ext where
          cs: "create_stages w a wfid defaults (pre @ bad # post) (tr1 @ [Out (''WFID='' @ wfid)])
                 = (Some oc, (tr1 @ [Out (''WFID='' @ wfid)]) @ ext)"
          and oc: "oc = SysExit 3 \<or> (\<exists>e'. oc = Uncaught e')"
          and len: "length (spawned ext) \<le> length pre"
          using create_stages_invalid [OF sc, of w pre post "tr1 @ [Out (''WFID='' @ wfid)]"]
          by blast
        have "main a cfg w = (oc, (tr1 @ [Out (''WFID='' @ wfid)]) @ ext)"
          unfolding main_after_create_workflow [OF prep run' \<open>returncode cp = 0\<close> wfid_def False]
            cs prod.case option.case by (rule refl)
        then have "main a cfg w = (oc, tr1 @ (Out (''WFID='' @ wfid) # ext))" by simp
        moreover have "length (spawned (Out (''WFID='' @ wfid) # ext)) \<le> length pre"
          using len by simp
        ultimately show ?thesis using run oc by force
      qed
    qed
  qed
qed

text \<open>
  Claim C3 says that an entry of the stage list that is not a mapping, or has no
  \<^verbatim>\<open>id\<close>, makes the run fail before any external call. The entries are checked one
  by one inside the loop that creates the stages, after create-workflow has run: for a
  document whose only entry has no \<^verbatim>\<open>id\<close>, the create-workflow call is made, its
  answer is read, and only then \<^verbatim>\<open>require\<close> raises.
\<close>

theorem invalid_stage_counterexample:
  "main plain_args cfg_no_id world_ok =
     (Uncaught (ValueError (''Each stage needs an '' @ [CHR 0x27] @ ''id'' @ [CHR 0x27] @ ''.'')),
      [Out ''+ justin create-workflow --description gen --monte-carlo 5'',
       Spawn [''justin'', ''create-workflow'', ''--description'', ''gen'', ''--monte-carlo'', ''5''],
       Out ''WFID=77''])
   \<and> spawned (snd (main plain_args cfg_no_id world_ok))
       = [[''justin'', ''create-workflow'', ''--description'', ''gen'', ''--monte-carlo'', ''5'']]
   \<and> spawned (snd (main plain_args cfg_no_id world_ok)) \<noteq> []"
  by code_simp

text \<open>
  Claim C3, amended. Let the document pass the checks made before anything runs (a
  non-empty stage list, a workflow with \<^verbatim>\<open>description\<close> and \<^verbatim>\<open>monte_carlo\<close>), and
  let \<open>bad\<close> be an entry of the stage list that is not a mapping or has no \<^verbatim>\<open>id\<close>,
  with the entries \<open>pre\<close> before it. For that entry the loop raises the
  \<^verbatim>\<open>ValueError\<close> of \<^verbatim>\<open>require\<close> and builds no command. The run never ends well: it
  ends with \<^verbatim>\<open>sys.exit(2)\<close>, with \<^verbatim>\<open>sys.exit(3)\<close> or with an exception that nothing
  catches. But it does not fail before the first external call: unless it is a dry
  run, its first call of \<^verbatim>\<open>subprocess.run\<close> is create-workflow. It makes at most
  \<open>1 + length pre\<close> calls, so none for \<open>bad\<close> or an entry after it, and it does not
  submit the workflow. When create-workflow has given an id and the calls for \<open>pre\<close>
  have succeeded, the run ends with that \<^verbatim>\<open>ValueError\<close>, right after the last of
  these calls.
\<close>

theorem invalid_stage_entry_aborts_late:
  assumes prep: "prepare a cfg = Inr (defaults, pre @ bad # post, create_wf)"
    and bad: "\<not> isinstance_dict bad \<or> py_in ''id'' bad = Inr False"
  shows "(\<forall>wfid. stage_cmd (justin_global a) wfid defaults bad =
                   Inl (ValueError (if \<not> isinstance_dict bad
                            then ''Each stage entry must be a mapping/dict.''
                            else ''Each stage needs an '' @ [CHR 0x27] @ ''id'' @ [CHR 0x27] @ ''.'')))
         \<and> (fst (main a cfg w) = SysExit 2 \<or> fst (main a cfg w) = SysExit 3
              \<or> (\<exists>e. fst (main a cfg w) = Uncaught e))
         \<and> (\<not> dry_run a \<longrightarrow>
              (\<exists>more. spawned (snd (main a cfg w))
                        = build_justin_cmd create_wf (with_dune_setup a) # more))
         \<and> length (spawned (snd (main a cfg w))) \<le> 1 + length pre
         \<and> (\<forall>cp tr1 wfid tr2.
               run_cmd w create_wf (dry_run a) (with_dune_setup a) True [] = (Inr cp, tr1)
               \<and> returncode cp = 0
               \<and> wfid = (if \<not> dry_run a
                          then strip (case stdout cp of None \<Rightarrow> [] | Some s \<Rightarrow> s)
                          else ''DRYRUN_WFID'')
               \<and> wfid \<noteq> []
               \<and> create_stages w a wfid defaults pre (tr1 @ [Out (''WFID='' @ wfid)]) = (None, tr2)
               \<longrightarrow> main a cfg w =
                     (Uncaught (ValueError (if \<not> isinstance_dict bad
                            then ''Each stage entry must be a mapping/dict.''
                            else ''Each stage needs an '' @ [CHR 0x27] @ ''id'' @ [CHR 0x27] @ ''.'')),
                      tr2))"
proof -
  let ?msg = "(if \<not> isinstance_dict bad
                            then ''Each stage entry must be a mapping/dict.''
                            else ''Each stage needs an '' @ [CHR 0x27] @ ''id'' @ [CHR 0x27] @ ''.'')"
  have sc: "stage_cmd (justin_global a) wfid defaults bad = Inl (ValueError ?msg)" for wfid
    using bad by (rule stage_cmd_invalid)
  obtain oc ext where
    m: "main a cfg w = (oc, snd (run_cmd w create_wf (dry_run a) (with_dune_setup a) True []) @ ext)"
    and oc: "oc = SysExit 2 \<or> oc = SysExit 3 \<or> (\<exists>e. oc = Uncaught e)"
    and len: "length (spawned ext) \<le> length pre"
    using main_invalid_entry [OF prep bad, of w] by blast
  have p2: "fst (main a cfg w) = SysExit 2 \<or> fst (main a cfg w) = SysExit 3
              \<or> (\<exists>e. fst (main a cfg w) = Uncaught e)"
    using oc by (simp add: m)
  have p3: "\<exists>more. spawned (snd (main a cfg w))
                        = build_justin_cmd create_wf (with_dune_setup a) # more"
    if "\<not> dry_run a"
    using that by (simp add: m run_cmd_snd spawned_append)
  have p4: "length (spawned (snd (main a cfg w))) \<le> 1 + length pre"
    using len by (simp add: m run_cmd_snd spawned_append)
  have p5: "main a cfg w = (Uncaught (ValueError ?msg), tr2)"
    if h: "run_cmd w create_wf (dry_run a) (with_dune_setup a) True [] = (Inr cp, tr1)
           \<and> returncode cp = 0
           \<and> wfid = (if \<not> dry_run a
                      then strip (case stdout cp of None \<Rightarrow> [] | Some s \<Rightarrow> s)
                      else ''DRYRUN_WFID'')
           \<and> wfid \<noteq> []
           \<and> create_stages w a wfid defaults pre (tr1 @ [Out (''WFID='' @ wfid)]) = (None, tr2)"
    for cp tr1 wfid tr2
  proof -
    from h have run: "run_cmd w create_wf (dry_run a) (with_dune_setup a) True [] = (Inr cp, tr1)"
      and rc0: "returncode cp = 0"
      and wfid: "wfid = (if \<not> dry_run a
                      then strip (case stdout cp of None \<Rightarrow> [] | Some s \<Rightarrow> s)
                      else ''DRYRUN_WFID'')"
      and ne: "wfid \<noteq> []"
      and before: "create_stages w a wfid defaults pre (tr1 @ [Out (''WFID='' @ wfid)]) = (None, tr2)"
      by blast+
    have stage: "create_stages w a wfid defaults (bad # post) tr2
                   = (Some (Uncaught (ValueError ?msg)), tr2)"
      using sc [of wfid] by (rule create_stages_raise)
    have loop: "create_stages w a wfid defaults (pre @ bad # post) (tr1 @ [Out (''WFID='' @ wfid)])
                   = (Some (Uncaught (ValueError ?msg)), tr2)"
      unfolding create_stages_append before prod.case option.case by (rule stage)
    show ?thesis
      unfolding main_after_create_workflow [OF prep run rc0 wfid ne] loop prod.case option.case
      by (rule refl)
  qed
  from sc p2 p3 p4 p5 show ?thesis by blast
qed

lemma second_bad_prepare:
  "prepare plain_args cfg_second_bad =
     Inr (three_defaults, [PDict [(KStr ''id'', PInt 1), (KStr ''jobscript'', PStr ''a.jobscript'')]] @ PStr ''oops'' # [PDict [(KStr ''id'', PInt 3), (KStr ''jobscript'', PStr ''c.jobscript'')]],
          [''justin'', ''create-workflow'', ''--description'', ''gen'', ''--monte-carlo'', ''5''])"
  by code_simp

lemma second_bad_run:
  "main plain_args cfg_second_bad world_ok =
     (Uncaught (ValueError ''Each stage entry must be a mapping/dict.''),
      [Out ''+ justin create-workflow --description gen --monte-carlo 5'',
       Spawn [''justin'', ''create-workflow'', ''--description'', ''gen'', ''--monte-carlo'', ''5''],
       Out ''WFID=77'',
       Out ''+ justin create-stage --workflow-id 77 --stage-id 1 --jobscript-git org/repo/a.jobscript:main --env DUNESW_VERSION=v10'',
       Spawn [''justin'', ''create-stage'', ''--workflow-id'', ''77'', ''--stage-id'', ''1'',
        ''--jobscript-git'', ''org/repo/a.jobscript:main'', ''--env'', ''DUNESW_VERSION=v10'']])"
  by code_simp

theorem invalid_stage_entry_aborts_late_witness:
  "\<not> isinstance_dict (PStr ''oops'')
   \<and> stage_cmd (justin_global plain_args) ''77'' three_defaults (PStr ''oops'')
       = Inl (ValueError ''Each stage entry must be a mapping/dict.'')
   \<and> fst (main plain_args cfg_second_bad world_ok)
       = Uncaught (ValueError ''Each stage entry must be a mapping/dict.'')
   \<and> spawned (snd (main plain_args cfg_second_bad world_ok))
       = [[''justin'', ''create-workflow'', ''--description'', ''gen'', ''--monte-carlo'', ''5''],
          [''justin'', ''create-stage'', ''--workflow-id'', ''77'', ''--stage-id'', ''1'',
        ''--jobscript-git'', ''org/repo/a.jobscript:main'', ''--env'', ''DUNESW_VERSION=v10'']]
   \<and> length (spawned (snd (main plain_args cfg_second_bad world_ok))) \<le> 1 + length [PDict [(KStr ''id'', PInt 1), (KStr ''jobscript'', PStr ''a.jobscript'')]]"
  using invalid_stage_entry_aborts_late [OF second_bad_prepare, of world_ok]
  by (simp add: isinstance_dict_def second_bad_run)

end
